theory Spec2Isabelle
  imports Complex_Main "HOL-Library.Char_ord" "HOL-Library.List_Lexorder"
    "HOL-Library.Product_Lexorder" "HOL-Library.Multiset" "HOL-Library.Log_Nat"
begin

section \<open>Text primitives\<close>

text \<open>
  Python strings are modelled as HOL strings (lists of characters). The model covers
  ASCII text: \<open>lower\<close> and \<open>upper\<close> change the 26 ASCII letters only, and the
  whitespace of \<open>str.strip\<close>, \<open>str.split\<close> and the regular expression class
  \<open>\s\<close> is the ASCII part of Python's whitespace (code points 9 to 13, 28 to 32).
\<close>

definition whitespace_chars :: "char list" where
  "whitespace_chars =
     [CHR 0x09, CHR 0x0A, CHR 0x0B, CHR 0x0C, CHR 0x0D,
      CHR 0x1C, CHR 0x1D, CHR 0x1E, CHR 0x1F, CHR 0x20]"

definition is_space :: "char \<Rightarrow> bool" where
  "is_space c = (c \<in> set whitespace_chars)"

definition is_digit :: "char \<Rightarrow> bool" where
  "is_digit c = (c \<in> set ''0123456789'')"

definition upper_letters :: string where
  "upper_letters = ''ABCDEFGHIJKLMNOPQRSTUVWXYZ''"

definition lower_letters :: string where
  "lower_letters = ''abcdefghijklmnopqrstuvwxyz''"

definition lower_char :: "char \<Rightarrow> char" where
  "lower_char c = (case map_of (zip upper_letters lower_letters) c of Some d \<Rightarrow> d | None \<Rightarrow> c)"

definition upper_char :: "char \<Rightarrow> char" where
  "upper_char c = (case map_of (zip lower_letters upper_letters) c of Some d \<Rightarrow> d | None \<Rightarrow> c)"

text \<open>\<open>s.lower()\<close> and \<open>s.upper()\<close>.\<close>

definition lower :: "string \<Rightarrow> string" where
  "lower s = map lower_char s"

definition upper :: "string \<Rightarrow> string" where
  "upper s = map upper_char s"

text \<open>\<open>s.strip()\<close>.\<close>

definition strip :: "string \<Rightarrow> string" where
  "strip s = rev (dropWhile is_space (rev (dropWhile is_space s)))"

fun startswith :: "string \<Rightarrow> string \<Rightarrow> bool" where
  "startswith s [] = True"
| "startswith [] (p # ps) = False"
| "startswith (c # cs) (p # ps) = (c = p \<and> startswith cs ps)"

text \<open>\<open>sub in s\<close> on strings: \<open>sub\<close> occurs in \<open>s\<close> as a contiguous piece.\<close>

fun is_substr :: "string \<Rightarrow> string \<Rightarrow> bool" where
  "is_substr sub [] = (sub = [])"
| "is_substr sub (c # cs) = (startswith (c # cs) sub \<or> is_substr sub cs)"

text \<open>\<open>s.split(d)\<close> with a one-character separator: empty pieces are kept.\<close>

fun split_on :: "(char \<Rightarrow> bool) \<Rightarrow> string \<Rightarrow> string list" where
  "split_on d [] = [[]]"
| "split_on d (c # cs) =
     (if d c then [] # split_on d cs
      else (case split_on d cs of [] \<Rightarrow> [[c]] | w # ws \<Rightarrow> (c # w) # ws))"

definition split_comma :: "string \<Rightarrow> string list" where
  "split_comma s = split_on (\<lambda>c. c = CHR '','') s"

text \<open>\<open>s.split()\<close>: pieces between runs of whitespace, none of them empty.\<close>

definition split_ws :: "string \<Rightarrow> string list" where
  "split_ws s = filter (\<lambda>w. w \<noteq> []) (split_on is_space s)"

text \<open>\<open>sep.join(xs)\<close>.\<close>

fun join :: "string \<Rightarrow> string list \<Rightarrow> string" where
  "join sep [] = []"
| "join sep [x] = x"
| "join sep (x # y # ys) = x @ sep @ join sep (y # ys)"

definition is_alnum_lower :: "char \<Rightarrow> bool" where
  "is_alnum_lower c = (c \<in> set ''abcdefghijklmnopqrstuvwxyz0123456789'')"

text \<open>
  \<open>re.sub(r"[^a-z0-9]+", " ", s)\<close>: every maximal run of characters outside
  \<open>a-z0-9\<close> becomes one space. The flag says that the previous character belonged
  to such a run.
\<close>

fun sub_non_alnum :: "bool \<Rightarrow> string \<Rightarrow> string" where
  "sub_non_alnum in_run [] = []"
| "sub_non_alnum in_run (c # cs) =
     (if is_alnum_lower c then c # sub_non_alnum False cs
      else if in_run then sub_non_alnum True cs
      else CHR '' '' # sub_non_alnum True cs)"

definition normalize_text :: "string \<Rightarrow> string" where
  "normalize_text v = strip (sub_non_alnum False (lower v))"

section \<open>Values of the program\<close>

text \<open>The exceptions the modelled code can raise.\<close>

datatype py_error = ValueError | InvalidOperation | OverflowError | TypeError

text \<open>
  What a call does: it returns a value, it raises, or the model leaves the result open
  (\<open>Unspecified\<close>), which happens only where a comparison or a sort meets NaN.
\<close>

datatype 'a outcome = Returns 'a | Raises py_error | Unspecified

text \<open>
  A price is a Python float: a finite number, modelled by the rational it denotes, or
  NaN, which \<open>float("nan")\<close> and a missing cell of a data frame produce. Every ordering
  comparison with NaN is false, NaN is truthy, and negating NaN gives NaN. The
  infinities are not modelled.
\<close>

datatype pyfloat = Finite rat | NaN

fun float_lt :: "pyfloat \<Rightarrow> pyfloat \<Rightarrow> bool" where
  "float_lt (Finite a) (Finite b) = (a < b)"
| "float_lt (Finite a) NaN = False"
| "float_lt NaN b = False"


fun float_neg :: "pyfloat \<Rightarrow> pyfloat" where
  "float_neg (Finite a) = Finite (- a)"
| "float_neg NaN = NaN"

text \<open>The truth value of a number: false for zero only.\<close>

definition float_truthy :: "pyfloat \<Rightarrow> bool" where
  "float_truthy x = (x \<noteq> Finite 0)"

section \<open>Products\<close>

text \<open>
  A catalog row is a dictionary with loosely typed fields. The model keeps the fields
  the ranking, filtering and bundle code reads, each with the shapes that code
  distinguishes:
  \<^item> \<open>p_id\<close> is \<open>str(product.get("id", ""))\<close>, the empty string when the key is absent;
  \<^item> \<open>p_name\<close> is \<open>product.get("name", "")\<close>: a string, the empty string when the key
    is absent, or \<open>None\<close> when the row holds a null name;
  \<^item> \<open>p_descrizione\<close> is the string under \<open>"descrizione_prodotto"\<close>, the empty string
    when absent or null;
  \<^item> a price is absent (or of a type the code ignores), a number, a string (carried with
    what \<open>float()\<close> makes of it, \<open>None\<close> when \<open>float()\<close> raises \<open>ValueError\<close>), or a
    dictionary with optional \<open>amountMax\<close> and \<open>amountMin\<close> numbers;
  \<^item> a category field is absent (or of another type), a list of strings, or one string.
\<close>

datatype price_field =
    PriceAbsent
  | PriceNum pyfloat
  | PriceStr "pyfloat option"
  | PriceRange "pyfloat option" "pyfloat option"

datatype cat_field = CatAbsent | CatList "string list" | CatStr string

record product =
  p_id :: string
  p_name :: "string option"
  p_price :: price_field
  p_descrizione :: string
  p_primaryCategories :: cat_field
  p_categories :: cat_field

text \<open>\<open>name or ""\<close> and \<open>str(name)\<close> on a name that may be \<open>None\<close>.\<close>

definition name_or_empty :: "string option \<Rightarrow> string" where
  "name_or_empty name = (case name of None \<Rightarrow> [] | Some s \<Rightarrow> s)"

definition name_str :: "string option \<Rightarrow> string" where
  "name_str name = (case name of None \<Rightarrow> ''None'' | Some s \<Rightarrow> s)"

section \<open>Category filter\<close>

definition CATEGORY_MAPPING :: "(string \<times> string list) list" where
  "CATEGORY_MAPPING =
     [(''Video & TV'',
        [''tv'', ''televisions'', ''tv accessories'', ''tv mounts'', ''projectors'',
         ''video projectors'', ''dvd players'', ''blu-ray players'', ''blu-ray'',
         ''video'', ''home theater'']),
      (''Informatica'',
        [''computers'', ''desktop computers'', ''monitors'', ''tablets'',
         ''printers'', ''scanners'', ''computer accessories'', ''pc components'',
         ''input devices'', ''keyboards'', ''mice'', ''laptops'']),
      (''Audio'',
        [''audio'', ''speakers'', ''wireless speakers'', ''bluetooth speakers'',
         ''headphones'', ''home audio'', ''home theater'', ''home theater systems'',
         ''microphones'', ''amplifiers'', ''stereos'', ''portable audio''])]"

definition is_tv_request :: "string \<Rightarrow> bool" where
  "is_tv_request category_lower = (category_lower \<in> set [''tv'', ''televisions''])"

definition is_audio_request :: "string \<Rightarrow> bool" where
  "is_audio_request category_lower =
     (category_lower \<in> set [''speakers'', ''wireless speakers'', ''bluetooth speakers'',
                             ''headphones'', ''audio''])"

definition unambiguous_tags :: "string list \<Rightarrow> string \<Rightarrow> string list" where
  "unambiguous_tags tags category_lower =
     (let search_tags =
            map (\<lambda>t. strip (lower t))
              (filter (\<lambda>t. lower t \<notin> set [''home theater'', ''home theater systems'']) tags)
      in if category_lower \<notin> set search_tags then search_tags @ [category_lower]
         else search_tags)"

text \<open>
  The loop over \<open>CATEGORY_MAPPING.items()\<close>, in insertion order, leaving at the first
  main category whose name or one of whose tags is the requested category.
\<close>

fun resolve_search_tags :: "(string \<times> string list) list \<Rightarrow> string \<Rightarrow> string list" where
  "resolve_search_tags [] category_lower = []"
| "resolve_search_tags ((main_category, tags) # rest) category_lower =
     (if category_lower = lower main_category then map (\<lambda>t. strip (lower t)) tags
      else if category_lower \<in> set (map lower tags) then
        (if is_tv_request category_lower then unambiguous_tags tags category_lower
         else if is_audio_request category_lower then unambiguous_tags tags category_lower
         else map (\<lambda>t. strip (lower t)) tags)
      else resolve_search_tags rest category_lower)"

definition search_tags_for :: "string \<Rightarrow> string list" where
  "search_tags_for category_lower =
     (let search_tags = resolve_search_tags CATEGORY_MAPPING category_lower
      in if search_tags = [] then [category_lower] else search_tags)"

text \<open>
  The tags read from one category field by \<open>filter_products_by_category\<close>: nothing
  when the field is falsy, the stripped elements of a list, the stripped pieces of a
  comma-separated string.
\<close>

definition field_categories :: "cat_field \<Rightarrow> string list" where
  "field_categories f =
     (case f of
        CatAbsent \<Rightarrow> []
      | CatList xs \<Rightarrow> (if xs = [] then [] else map strip xs)
      | CatStr s \<Rightarrow> (if s = [] then [] else map strip (split_comma s)))"

definition product_categories :: "product \<Rightarrow> string list" where
  "product_categories p =
     map (\<lambda>cat. strip (lower cat))
       (filter (\<lambda>cat. cat \<noteq> [])
          (field_categories (p_primaryCategories p) @ field_categories (p_categories p)))"

definition video_tags :: "string list" where
  "video_tags = [''tv'', ''televisions'', ''television'', ''projector'', ''video'', ''dvd'',
                 ''blu-ray'', ''blu ray'']"

definition audio_tags :: "string list" where
  "audio_tags = [''speaker'', ''headphone'', ''microphone'', ''amplifier'', ''stereo'',
                 ''portable audio'']"

definition has_audio_only :: "string list \<Rightarrow> bool" where
  "has_audio_only cats =
     list_ex (\<lambda>product_cat. list_ex (\<lambda>audio_tag. is_substr audio_tag (lower product_cat)) audio_tags) cats"

definition has_video_tags :: "string list \<Rightarrow> bool" where
  "has_video_tags cats =
     list_ex (\<lambda>product_cat. list_ex (\<lambda>video_tag. is_substr video_tag (lower product_cat)) video_tags) cats"

definition has_explicit_video_tag :: "string list \<Rightarrow> bool" where
  "has_explicit_video_tag cats =
     list_ex (\<lambda>cat. list_ex (\<lambda>video_tag. is_substr video_tag (lower cat))
                [''tv'', ''televisions'', ''television'', ''projector'', ''video'']) cats"

text \<open>
  One round of the inner loop: a search tag against one category of the product.
  \<open>True\<close> is \<open>matches = True; break\<close>, \<open>False\<close> is falling through or
  \<open>continue\<close>.
\<close>

definition tag_matches :: "string \<Rightarrow> string list \<Rightarrow> string \<Rightarrow> string \<Rightarrow> bool" where
  "tag_matches category_lower cats search_tag product_cat =
     (let search_tag_clean = strip (lower search_tag);
          product_cat_clean = strip (lower product_cat)
      in if search_tag_clean = product_cat_clean then True
         else if is_substr search_tag_clean product_cat_clean then
           (if is_tv_request category_lower \<and> is_substr ''home theater'' product_cat_clean
               \<and> \<not> has_explicit_video_tag cats
            then False else True)
         else if length search_tag_clean > 3 \<and> is_substr product_cat_clean search_tag_clean then
           (if is_tv_request category_lower \<and> is_substr ''home theater'' search_tag_clean
            then False else True)
         else False)"

text \<open>The body of the loop over the products: does the product reach the output?\<close>

definition product_matches :: "string \<Rightarrow> string list \<Rightarrow> product \<Rightarrow> bool" where
  "product_matches category_lower search_tags p =
     (let cats = product_categories p
      in if cats = [] then False
         else if is_tv_request category_lower \<and> has_audio_only cats \<and> \<not> has_video_tags cats
         then False
         else list_ex (\<lambda>search_tag. list_ex (tag_matches category_lower cats search_tag) cats)
                search_tags)"

definition filter_products_by_category :: "product list \<Rightarrow> string \<Rightarrow> product list" where
  "filter_products_by_category products category =
     (if products = [] \<or> category = [] then products
      else (let category_lower = strip (lower category);
                search_tags = search_tags_for category_lower
            in filter (product_matches category_lower search_tags) products))"

section \<open>Keyword vocabularies\<close>

definition CROSS_SELL_PC_KEYWORDS :: "string list" where
  "CROSS_SELL_PC_KEYWORDS =
     [''pc'', ''laptop'', ''notebook'', ''desktop'', ''computer'', ''ultrabook'', ''macbook'',
      ''gaming'']"

definition CROSS_SELL_TV_KEYWORDS :: "string list" where
  "CROSS_SELL_TV_KEYWORDS = [''tv'', ''televisore'', ''television'', ''smart tv'', ''oled'', ''qled'']"

definition CROSS_SELL_AUDIO_KEYWORDS :: "string list" where
  "CROSS_SELL_AUDIO_KEYWORDS =
     [''soundbar'', ''subwoofer'', ''home theater'', ''home-theater'', ''surround'', ''dolby'',
      ''sound system'', ''speaker'']"

definition CROSS_SELL_LED_KEYWORDS :: "string list" where
  "CROSS_SELL_LED_KEYWORDS =
     [''led'', ''ambient'', ''strip'', ''lighting'', ''backlight'', ''back light'']"

definition CROSS_SELL_MOUNT_KEYWORDS :: "string list" where
  "CROSS_SELL_MOUNT_KEYWORDS = [''support'', ''staffa'', ''mount'', ''bracket'', ''stand'']"

definition SOLUTION_BUNDLE_GOAL_KEYWORDS :: "string list" where
  "SOLUTION_BUNDLE_GOAL_KEYWORDS =
     [''home theater'', ''home theatre'', ''home-theater'', ''home-theatre'', ''home cinema'',
      ''cinema'']"

definition SOLUTION_BUNDLE_SOUNDBAR_KEYWORDS :: "string list" where
  "SOLUTION_BUNDLE_SOUNDBAR_KEYWORDS = [''soundbar'']"

definition SOLUTION_BUNDLE_SUBWOOFER_KEYWORDS :: "string list" where
  "SOLUTION_BUNDLE_SUBWOOFER_KEYWORDS = [''subwoofer'']"

text \<open>
  The source builds this list from a set, so its order is not fixed; every use is a
  membership test over the whole list, for which the order does not matter.
\<close>

definition BUNDLE_ACCESSORY_EXCLUDE_KEYWORDS :: "string list" where
  "BUNDLE_ACCESSORY_EXCLUDE_KEYWORDS =
     remdups
       ([''accessor'', ''supporto'', ''staff'', ''mount'', ''bracket'', ''stand'', ''base'', ''kit'',
         ''panno'', ''microfibra'', ''clean'', ''pulizia'', ''cavo'', ''hdmi'', ''telecomand'',
         ''remote'', ''led'', ''strip'', ''lighting'', ''backlight'', ''wall'']
        @ CROSS_SELL_MOUNT_KEYWORDS @ CROSS_SELL_LED_KEYWORDS)"

section \<open>Helpers on products\<close>

text \<open>
  \<open>_extract_product_categories\<close>: the truthy elements of a list, stripped; the
  non-blank pieces of a comma-separated string, stripped.
\<close>

definition extract_field_categories :: "cat_field \<Rightarrow> string list" where
  "extract_field_categories f =
     (case f of
        CatAbsent \<Rightarrow> []
      | CatList xs \<Rightarrow> map strip (filter (\<lambda>cat. cat \<noteq> []) xs)
      | CatStr s \<Rightarrow> map strip (filter (\<lambda>cat. strip cat \<noteq> []) (split_comma s)))"

definition extract_product_categories :: "product \<Rightarrow> string list" where
  "extract_product_categories p =
     extract_field_categories (p_primaryCategories p) @ extract_field_categories (p_categories p)"

text \<open>\<open>any(keyword in text for keyword in keywords)\<close>.\<close>

definition any_keyword_in :: "string list \<Rightarrow> string \<Rightarrow> bool" where
  "any_keyword_in keywords txt = list_ex (\<lambda>keyword. is_substr keyword txt) keywords"

definition has_home_theater_intent :: "string list \<Rightarrow> bool" where
  "has_home_theater_intent keywords =
     (if keywords = [] then False
      else (let normalized = normalize_text (join '' '' (filter (\<lambda>kw. kw \<noteq> []) keywords))
            in list_ex (\<lambda>goal. is_substr (normalize_text goal) normalized)
                 SOLUTION_BUNDLE_GOAL_KEYWORDS))"

definition is_accessory_product :: "product \<Rightarrow> string list \<Rightarrow> bool" where
  "is_accessory_product p accessory_keywords =
     (if accessory_keywords = [] then False
      else (let normalized_name = normalize_text (name_str (p_name p));
                normalized_categories = normalize_text (join '' '' (extract_product_categories p));
                combined = strip (normalized_name @ '' '' @ normalized_categories)
            in any_keyword_in accessory_keywords combined))"

section \<open>Relevance ranking\<close>

subsection \<open>The size in a product name\<close>

text \<open>
  \<open>extract_size_from_name\<close> tries three regular expressions with \<open>re.search\<close> and
  \<open>re.IGNORECASE\<close>:
  \<^verbatim>\<open>(\d+)\s*(?:inch|pollici|"|in)(?:es)?\<close>,
  \<^verbatim>\<open>(\d+)[\s-]*(?:inch|pollici|"|in)\<close> and
  \<^verbatim>\<open>(\d+)\s*(?:inch|pollici)\<close>.
  Each is a run of digits (the group), a run of separator characters and one of a list
  of unit words. The matcher below is the backtracking search of \<open>re\<close> for patterns
  of that shape: start positions from the left, the greedy repetitions longest first.
  The optional \<open>(?:es)?\<close> never changes whether or where a match is found, nor its
  group.
\<close>

definition unit_at :: "string list \<Rightarrow> string \<Rightarrow> bool" where
  "unit_at units s = list_ex (\<lambda>u. startswith (lower (take (length u) s)) u) units"

fun sep_then_unit :: "(char \<Rightarrow> bool) \<Rightarrow> string list \<Rightarrow> string \<Rightarrow> bool" where
  "sep_then_unit sep units [] = unit_at units []"
| "sep_then_unit sep units (c # cs) =
     ((sep c \<and> sep_then_unit sep units cs) \<or> unit_at units (c # cs))"

fun digits_then :: "(char \<Rightarrow> bool) \<Rightarrow> string list \<Rightarrow> string \<Rightarrow> string \<Rightarrow> string option" where
  "digits_then sep units acc [] =
     (if acc \<noteq> [] \<and> sep_then_unit sep units [] then Some acc else None)"
| "digits_then sep units acc (c # cs) =
     (case (if is_digit c then digits_then sep units (acc @ [c]) cs else None) of
        Some g \<Rightarrow> Some g
      | None \<Rightarrow> if acc \<noteq> [] \<and> sep_then_unit sep units (c # cs) then Some acc else None)"

text \<open>\<open>re.search\<close>: the group of the leftmost match, \<open>None\<close> without a match.\<close>

fun search_size :: "(char \<Rightarrow> bool) \<Rightarrow> string list \<Rightarrow> string \<Rightarrow> string option" where
  "search_size sep units [] = None"
| "search_size sep units (c # cs) =
     (case digits_then sep units [] (c # cs) of
        Some g \<Rightarrow> Some g
      | None \<Rightarrow> search_size sep units cs)"

definition digit_value :: "char \<Rightarrow> int" where
  "digit_value c = of_char c - 48"

text \<open>
  \<open>int(digits)\<close> on a string of decimal digits. CPython refuses a string of more than
  4300 digits with \<open>ValueError\<close>, which the source catches (\<open>continue\<close>).
\<close>

definition max_str_digits :: nat where
  "max_str_digits = 4300"

definition int_of_digits :: "string \<Rightarrow> int option" where
  "int_of_digits g =
     (if length g > max_str_digits then None
      else Some (foldl (\<lambda>acc c. 10 * acc + digit_value c) 0 g))"

definition inch_units :: "string list" where
  "inch_units = [''inch'', ''pollici'', [CHR 0x22], ''in'']"

definition size_patterns :: "((char \<Rightarrow> bool) \<times> string list) list" where
  "size_patterns =
     [(is_space, inch_units),
      (\<lambda>c. is_space c \<or> c = CHR ''-'', inch_units),
      (is_space, [''inch'', ''pollici''])]"

fun first_size :: "((char \<Rightarrow> bool) \<times> string list) list \<Rightarrow> string \<Rightarrow> int option" where
  "first_size [] name = None"
| "first_size ((sep, units) # patterns) name =
     (case search_size sep units name of
        None \<Rightarrow> first_size patterns name
      | Some g \<Rightarrow>
          (case int_of_digits g of
             Some n \<Rightarrow> Some n
           | None \<Rightarrow> first_size patterns name))"

text \<open>The function is called with \<open>product.get("name", "")\<close>, which may be \<open>None\<close>.\<close>

definition extract_size_from_name :: "string option \<Rightarrow> int option" where
  "extract_size_from_name name =
     (case name of
        None \<Rightarrow> None
      | Some s \<Rightarrow> if s = [] then None else first_size size_patterns s)"

subsection \<open>The price of a product\<close>

text \<open>\<open>amountMax or amountMin\<close>, each read with default 0.\<close>

definition range_amount :: "pyfloat option \<Rightarrow> pyfloat option \<Rightarrow> pyfloat" where
  "range_amount amountMax amountMin =
     (let mx = (case amountMax of None \<Rightarrow> Finite 0 | Some v \<Rightarrow> v)
      in if float_truthy mx then mx else (case amountMin of None \<Rightarrow> Finite 0 | Some v \<Rightarrow> v))"

text \<open>
  \<open>get_price\<close> ends in \<open>float(price_num) if price_num else 0.0\<close>: the test is one of
  truthiness, so a NaN price is returned as it is.
\<close>

definition get_price :: "product \<Rightarrow> pyfloat" where
  "get_price p =
     (let price_num =
            (case p_price p of
               PriceAbsent \<Rightarrow> Finite 0
             | PriceNum v \<Rightarrow> v
             | PriceStr parsed \<Rightarrow> (case parsed of None \<Rightarrow> Finite 0 | Some v \<Rightarrow> v)
             | PriceRange amountMax amountMin \<Rightarrow> range_amount amountMax amountMin)
      in if float_truthy price_num then price_num else Finite 0)"

subsection \<open>The score\<close>

text \<open>
  The criteria bag is a dictionary read with \<open>get\<close> under five keys; a field is
  \<open>None\<close> when its key is absent. The bag is empty when it has none of them.
  A score is an integer or a float in the source and a rational here; the arithmetic
  on finite prices is exact in the model. The numbers of the criteria bag are finite.
  A NaN price fails every comparison of steps 2 and 3, so the score is never NaN.
\<close>

record criteria =
  c_size_inches :: "int option"
  c_target_price :: "rat option"
  c_max_price :: "rat option"
  c_min_price :: "rat option"
  c_keywords :: "string list option"

definition criteria_is_empty :: "criteria \<Rightarrow> bool" where
  "criteria_is_empty c =
     (c_size_inches c = None \<and> c_target_price c = None \<and> c_max_price c = None
      \<and> c_min_price c = None \<and> c_keywords c = None)"

text \<open>Step 1: the score after the size match, starting from the base score 1000.\<close>

definition size_score :: "criteria \<Rightarrow> product \<Rightarrow> rat" where
  "size_score c p =
     (case c_size_inches c of
        None \<Rightarrow> 1000
      | Some target_size \<Rightarrow>
          if target_size = 0 then 1000
          else (case extract_size_from_name (p_name p) of
                  None \<Rightarrow> 1000
                | Some product_size \<Rightarrow>
                    if product_size = 0 then 1000
                    else (let size_diff = \<bar>product_size - target_size\<bar>
                          in if size_diff = 0 then 0
                             else if size_diff \<le> 5 then of_int (10 + size_diff)
                             else of_int (50 + size_diff))))"

text \<open>Step 2: the target price.\<close>

definition target_price_score :: "criteria \<Rightarrow> product \<Rightarrow> rat \<Rightarrow> rat" where
  "target_price_score c p score =
     (case c_target_price c of
        None \<Rightarrow> score
      | Some target_price \<Rightarrow>
          if target_price = 0 then score
          else (case get_price p of
                  NaN \<Rightarrow> score
                | Finite product_price \<Rightarrow>
                    if product_price > 0 then
                      (let price_diff = \<bar>product_price - target_price\<bar>;
                           price_diff_percent =
                             (if target_price > 0 then (price_diff / target_price) * 100 else 100)
                       in if score \<ge> 1000 then
                            (if price_diff_percent \<le> 10 then 20
                             else if price_diff_percent \<le> 25 then 30
                             else 40 + price_diff_percent)
                          else (if price_diff_percent \<le> 25 then score + 1 else score))
                    else score))"

text \<open>Step 3: the price range.\<close>

definition range_score :: "criteria \<Rightarrow> product \<Rightarrow> rat \<Rightarrow> rat" where
  "range_score c p score =
     (let product_price = get_price p;
          score1 = (case c_max_price c of
                      None \<Rightarrow> score
                    | Some max_price \<Rightarrow>
                        if max_price \<noteq> 0 \<and> float_lt (Finite max_price) product_price
                        then score + 100 else score)
      in (case c_min_price c of
            None \<Rightarrow> score1
          | Some min_price \<Rightarrow>
              if min_price \<noteq> 0 \<and> float_lt product_price (Finite min_price)
              then score1 + 50 else score1))"

definition criteria_keywords :: "criteria \<Rightarrow> string list" where
  "criteria_keywords c = (case c_keywords c of None \<Rightarrow> [] | Some kws \<Rightarrow> kws)"

text \<open>
  Step 4: keywords found in the name and the description, the name read as
  \<open>(product.get("name", "") or "")\<close>.
\<close>

definition keyword_score :: "criteria \<Rightarrow> product \<Rightarrow> rat \<Rightarrow> rat" where
  "keyword_score c p score =
     (let keywords = criteria_keywords c
      in if keywords = [] then score
         else (let txt = lower (name_or_empty (p_name p)) @ '' '' @ lower (p_descrizione p);
                   matched_keywords = length (filter (\<lambda>kw. is_substr (lower kw) txt) keywords)
               in if matched_keywords > 0 then max 0 (score - of_nat (matched_keywords * 5))
                  else score))"

text \<open>Step 5: home-theater intent; the name is formatted into an f-string here.\<close>

definition home_theater_score :: "criteria \<Rightarrow> product \<Rightarrow> rat \<Rightarrow> rat" where
  "home_theater_score c p score =
     (if has_home_theater_intent (criteria_keywords c) then
        (let combined_text =
               normalize_text
                 (name_str (p_name p) @ '' '' @ join '' '' (extract_product_categories p));
             s0 = (if is_accessory_product p BUNDLE_ACCESSORY_EXCLUDE_KEYWORDS then score + 120
                   else score);
             s1 = (if any_keyword_in CROSS_SELL_TV_KEYWORDS combined_text then max 0 (s0 - 40)
                   else s0);
             s2 = (if any_keyword_in SOLUTION_BUNDLE_SUBWOOFER_KEYWORDS combined_text
                   then max 0 (s1 - 25) else s1);
             s3 = (if any_keyword_in SOLUTION_BUNDLE_SOUNDBAR_KEYWORDS combined_text
                   then max 0 (s2 - 20) else s2)
         in if any_keyword_in CROSS_SELL_AUDIO_KEYWORDS combined_text then max 0 (s3 - 10)
            else s3)
      else score)"

definition relevance_score :: "criteria \<Rightarrow> product \<Rightarrow> rat" where
  "relevance_score c p =
     home_theater_score c p
       (keyword_score c p (range_score c p (target_price_score c p (size_score c p))))"

text \<open>
  The sort key \<open>(score, -get_price(product), product.get("name", ""))\<close>. The name
  enters the key as the row has it: unlike step 4, the key does not replace \<open>None\<close>.
\<close>

type_synonym rank_key = "rat \<times> pyfloat \<times> string option"

definition calculate_relevance_score :: "criteria \<Rightarrow> product \<Rightarrow> rank_key" where
  "calculate_relevance_score c p = (relevance_score c p, float_neg (get_price p), p_name p)"

subsection \<open>Comparing keys\<close>

text \<open>
  \<open>a < b\<close> on two key tuples. Python looks for the first position where the
  components are not equal and compares those with \<open><\<close>; equal tuples are not less.
  Two strings compare by code point; \<open>None\<close> equals only \<open>None\<close>, and \<open><\<close> between
  \<open>None\<close> and a string raises \<open>TypeError\<close>. A NaN differs from every other number and
  is less than none. Whether two NaN components count as equal depends on whether they
  are the same object, which the model does not record: that comparison is left open.
\<close>

definition key_lt :: "rank_key \<Rightarrow> rank_key \<Rightarrow> bool outcome" where
  "key_lt a b =
     (case (a, b) of ((score_a, price_a, name_a), (score_b, price_b, name_b)) \<Rightarrow>
        if score_a \<noteq> score_b then Returns (score_a < score_b)
        else if price_a = NaN \<and> price_b = NaN then Unspecified
        else if price_a \<noteq> price_b then Returns (float_lt price_a price_b)
        else if name_a = name_b then Returns False
        else (case (name_a, name_b) of
                (Some s, Some t) \<Rightarrow> Returns (s < t)
              | _ \<Rightarrow> Raises TypeError))"

subsection \<open>\<open>sorted\<close>\<close>

text \<open>
  \<open>sorted(products, key=calculate_relevance_score)\<close> computes every key and runs the
  list sort on them.

  When no key holds NaN, the keys that compare without raising are totally ordered:
  scores and prices are numbers, and names are compared only between keys of equal score
  and price. If some key with the name \<open>None\<close> and some key with a string name have
  the same score and price, the sort raises \<open>TypeError\<close>: no comparison that succeeds
  tells which of the two comes first, and the sort returns an ordered list only after
  settling every pair. Otherwise the result is the stable sort by the key; \<open>total_key\<close>
  is the key as a value of a linear order (a group of keys named \<open>None\<close> is a group
  of equal keys), and \<open>sort_key\<close> is the stable insertion sort of the library on the
  lexicographic order of triples and of character lists.

  When some key holds NaN, the comparison is not an order and the result depends on
  which pairs the sort compares. The list sort starts by scanning the leading run: it
  compares each element with its predecessor, \<open>keys[i] < keys[i-1]\<close>, from the left.
  If none of these comparisons is true the whole list is one ascending run and is
  returned as it is; if one raises, the sort raises. The model follows the sort that
  far and leaves every other case open.
\<close>

definition total_key :: "rank_key \<Rightarrow> rat \<times> rat \<times> string" where
  "total_key k =
     (case k of (score, price, name) \<Rightarrow>
        (score, (case price of Finite v \<Rightarrow> v | NaN \<Rightarrow> 0), name_or_empty name))"

definition key_has_nan :: "rank_key \<Rightarrow> bool" where
  "key_has_nan k = (fst (snd k) = NaN)"

definition mixed_name_tie :: "rank_key list \<Rightarrow> bool" where
  "mixed_name_tie keys =
     list_ex (\<lambda>a. list_ex (\<lambda>b. fst a = fst b \<and> fst (snd a) = fst (snd b)
                                  \<and> snd (snd a) = None \<and> snd (snd b) \<noteq> None) keys) keys"

fun ascending_run :: "rank_key list \<Rightarrow> bool outcome" where
  "ascending_run (a # b # keys) =
     (case key_lt b a of
        Returns lt \<Rightarrow> if lt then Returns False else ascending_run (b # keys)
      | Raises e \<Rightarrow> Raises e
      | Unspecified \<Rightarrow> Unspecified)"
| "ascending_run [a] = Returns True"
| "ascending_run [] = Returns True"

definition py_sorted :: "('a \<Rightarrow> rank_key) \<Rightarrow> 'a list \<Rightarrow> 'a list outcome" where
  "py_sorted key xs =
     (let keys = map key xs
      in if list_ex key_has_nan keys then
           (case ascending_run keys of
              Returns whole \<Rightarrow> if whole then Returns xs else Unspecified
            | Raises e \<Rightarrow> Raises e
            | Unspecified \<Rightarrow> Unspecified)
         else if mixed_name_tie keys then Raises TypeError
         else Returns (sort_key (\<lambda>x. total_key (key x)) xs))"

text \<open>The criteria argument is \<open>None\<close> when the caller passes none.\<close>

definition rank_products_by_criteria ::
  "product list \<Rightarrow> criteria option \<Rightarrow> product list outcome" where
  "rank_products_by_criteria products criteria =
     (case criteria of
        None \<Rightarrow> Returns products
      | Some c \<Rightarrow>
          if products = [] \<or> criteria_is_empty c then Returns products
          else py_sorted (calculate_relevance_score c) products)"
section \<open>Cross-sell recommender\<close>

text \<open>
  A cart item (\<open>CrossSellCartItemInput\<close>) and a catalog item, the dictionary the
  suggestion algorithm reads with \<open>get\<close>. The image reference of a catalog item is
  never read by the algorithm and is left out. The name of a catalog item is a string:
  the fixed catalog has strings only, and the catalog derived from the live products
  drops every item without a name before the algorithm sees it.
\<close>

record cart_item =
  ci_id :: string
  ci_name :: string
  ci_description :: "string option"
  ci_short_description :: "string option"
  ci_detail_summary :: "string option"
  ci_tags :: "string list option"
  ci_category :: "string option"

record cs_item =
  cs_id :: string
  cs_sku :: string
  cs_name :: string
  cs_price :: pyfloat
  cs_tags :: "string list"
  cs_compatibleWith :: "string list"
  cs_priority :: int

definition CROSS_SELL_CLEANING_TAG :: string where "CROSS_SELL_CLEANING_TAG = ''screen-cleaning''"
definition CROSS_SELL_POPULAR_TAG :: string where "CROSS_SELL_POPULAR_TAG = ''popular''"
definition CROSS_SELL_RECOMMENDED_TAG :: string where "CROSS_SELL_RECOMMENDED_TAG = ''recommended''"
definition CROSS_SELL_SOUNDBAR_TAG :: string where "CROSS_SELL_SOUNDBAR_TAG = ''soundbar''"
definition CROSS_SELL_SUBWOOFER_TAG :: string where "CROSS_SELL_SUBWOOFER_TAG = ''subwoofer''"
definition CROSS_SELL_LED_TAG :: string where "CROSS_SELL_LED_TAG = ''led''"
definition CROSS_SELL_MOUNT_TAG :: string where "CROSS_SELL_MOUNT_TAG = ''mount''"

definition fallback_item ::
  "string \<Rightarrow> string \<Rightarrow> string \<Rightarrow> rat \<Rightarrow> string list \<Rightarrow> string list \<Rightarrow> int \<Rightarrow> cs_item" where
  "fallback_item ident sku name price tags compatible priority =
     \<lparr>cs_id = ident, cs_sku = sku, cs_name = name, cs_price = Finite price, cs_tags = tags,
      cs_compatibleWith = compatible, cs_priority = priority\<rparr>"

definition CROSS_SELL_FALLBACK_CATALOG :: "cs_item list" where
  "CROSS_SELL_FALLBACK_CATALOG =
     [fallback_item ''cs-clean-cloth-01'' ''CS-CLEAN-CLOTH-01'' ''Panno in microfibra per schermi''
        (99 / 10) [CROSS_SELL_CLEANING_TAG, CROSS_SELL_POPULAR_TAG] [''pc'', ''tv''] 95,
      fallback_item ''cs-clean-spray-01'' ''CS-CLEAN-SPRAY-01'' ''Spray delicato per pulizia display''
        (129 / 10) [CROSS_SELL_CLEANING_TAG, CROSS_SELL_RECOMMENDED_TAG] [''pc'', ''tv''] 90,
      fallback_item ''cs-usb-c-01'' ''CS-USB-C-01'' ''Cavo USB-C 100W intrecciato''
        (199 / 10) [''usb-c'', CROSS_SELL_RECOMMENDED_TAG] [''pc''] 80,
      fallback_item ''cs-charger-01'' ''CS-CHARGER-01'' ''Caricatore USB-C 65W''
        (349 / 10) [''charger'', CROSS_SELL_POPULAR_TAG] [''pc''] 78,
      fallback_item ''cs-hdmi-01'' ''CS-HDMI-01'' ''Cavo HDMI 2.1 ad alta velocita''
        (249 / 10) [''hdmi'', CROSS_SELL_POPULAR_TAG] [''tv''] 82,
      fallback_item ''cs-remote-01'' ''CS-REMOTE-01'' ''Telecomando universale smart''
        (299 / 10) [''remote'', CROSS_SELL_RECOMMENDED_TAG] [''tv''] 75,
      fallback_item ''cs-mount-01'' ''CS-MOUNT-01'' ''Staffa TV slim orientabile''
        (499 / 10) [''tv-mount'', CROSS_SELL_RECOMMENDED_TAG] [''tv''] 72,
      fallback_item ''cs-ups-01'' ''CS-UPS-01'' ''Ciabatta con protezione UPS''
        (399 / 10) [''power'', CROSS_SELL_POPULAR_TAG] [''pc'', ''tv''] 70,
      fallback_item ''cs-stand-01'' ''CS-STAND-01'' ''Supporto da scrivania regolabile''
        (449 / 10) [''stand'', CROSS_SELL_RECOMMENDED_TAG] [''pc''] 68]"

subsection \<open>Reading the cart\<close>

definition opt_text :: "string option \<Rightarrow> string" where
  "opt_text v = (case v of None \<Rightarrow> [] | Some s \<Rightarrow> s)"

text \<open>\<open>_collect_cart_text\<close>: the truthy chunks of all items, joined by spaces.\<close>

definition item_chunks :: "cart_item \<Rightarrow> string list" where
  "item_chunks item =
     [ci_name item, opt_text (ci_description item), opt_text (ci_short_description item),
      opt_text (ci_detail_summary item),
      join '' '' (case ci_tags item of None \<Rightarrow> [] | Some tags \<Rightarrow> tags)]"

definition collect_cart_text :: "cart_item list \<Rightarrow> string" where
  "collect_cart_text cart_items =
     join '' '' (filter (\<lambda>chunk. chunk \<noteq> []) (concat (map item_chunks cart_items)))"

definition explicit_categories_of :: "cart_item \<Rightarrow> string list" where
  "explicit_categories_of item =
     (case ci_category item of
        None \<Rightarrow> []
      | Some category \<Rightarrow>
          if category = [] then []
          else (let normalized_category = normalize_text category
                in (if any_keyword_in [''pc'', ''laptop'', ''desktop''] normalized_category
                    then [''pc''] else [])
                   @ (if is_substr ''tv'' normalized_category
                         \<or> is_substr ''televis'' normalized_category
                      then [''tv''] else [])))"

text \<open>\<open>any(keyword in tokens or keyword in normalized_text for keyword in keywords)\<close>.\<close>

definition any_token_or_text :: "string list \<Rightarrow> string list \<Rightarrow> string \<Rightarrow> bool" where
  "any_token_or_text keywords tokens normalized_text =
     list_ex (\<lambda>keyword. keyword \<in> set tokens \<or> is_substr keyword normalized_text) keywords"

definition get_cart_category_intent :: "cart_item list \<Rightarrow> string list \<times> bool" where
  "get_cart_category_intent cart_items =
     (if cart_items = [] then ([], False)
      else (let normalized_text = normalize_text (collect_cart_text cart_items);
                tokens = split_ws normalized_text;
                explicit_categories = concat (map explicit_categories_of cart_items);
                has_pc = (''pc'' \<in> set explicit_categories
                          \<or> any_token_or_text CROSS_SELL_PC_KEYWORDS tokens normalized_text);
                has_tv = (''tv'' \<in> set explicit_categories
                          \<or> any_token_or_text CROSS_SELL_TV_KEYWORDS tokens normalized_text);
                has_audio = any_token_or_text CROSS_SELL_AUDIO_KEYWORDS tokens normalized_text;
                has_led = any_token_or_text CROSS_SELL_LED_KEYWORDS tokens normalized_text
            in ((if has_pc then [''pc''] else []) @ (if has_tv then [''tv''] else [])
                @ (if has_audio then [''audio''] else []) @ (if has_led then [''led''] else []),
                has_pc \<or> has_tv \<or> has_audio \<or> has_led)))"

text \<open>\<open>_get_cart_identifiers\<close>: the normalised identifiers and names of the cart.\<close>

definition get_cart_identifiers :: "cart_item list \<Rightarrow> string list \<times> string list" where
  "get_cart_identifiers cart_items =
     (map (\<lambda>item. normalize_text (ci_id item)) (filter (\<lambda>item. ci_id item \<noteq> []) cart_items),
      map (\<lambda>item. normalize_text (ci_name item)) (filter (\<lambda>item. ci_name item \<noteq> []) cart_items))"

definition has_accessory_keyword :: "cart_item list \<Rightarrow> string list \<Rightarrow> bool" where
  "has_accessory_keyword cart_items keywords =
     any_keyword_in keywords (normalize_text (collect_cart_text cart_items))"

subsection \<open>Ordering and de-duplication\<close>

text \<open>
  \<open>sorted(items, key=priority, reverse=True)\<close>: descending priority, items of equal
  priority in their original order (\<open>reverse=True\<close> keeps the sort stable).
\<close>

definition sort_by_priority :: "cs_item list \<Rightarrow> cs_item list" where
  "sort_by_priority items = sort_key (\<lambda>item. - cs_priority item) items"

fun dedupe_loop :: "cs_item list \<Rightarrow> string list \<Rightarrow> cs_item list" where
  "dedupe_loop [] seen = []"
| "dedupe_loop (item # items) seen =
     (if cs_sku item = [] \<or> cs_sku item \<in> set seen then dedupe_loop items seen
      else item # dedupe_loop items (cs_sku item # seen))"

definition dedupe_by_sku :: "cs_item list \<Rightarrow> cs_item list" where
  "dedupe_by_sku items = dedupe_loop items []"

text \<open>Python's \<open>xs[:n]\<close>: a negative \<open>n\<close> counts from the end.\<close>

definition py_take :: "int \<Rightarrow> 'a list \<Rightarrow> 'a list" where
  "py_take n xs = (if 0 \<le> n then take (nat n) xs else take (length xs - nat (- n)) xs)"

subsection \<open>The suggestion passes\<close>

text \<open>
  The state of the passes is the list \<open>suggestions\<close> and the set \<open>seen_skus\<close>;
  \<open>push_suggestion\<close> is the closure of that name.
\<close>

type_synonym suggestion_state = "cs_item list \<times> string list"

definition push_suggestion :: "cs_item \<Rightarrow> suggestion_state \<Rightarrow> suggestion_state" where
  "push_suggestion item st =
     (case st of (suggestions, seen_skus) \<Rightarrow>
        if cs_sku item = [] \<or> cs_sku item \<in> set seen_skus then st
        else (suggestions @ [item], cs_sku item # seen_skus))"

definition push_all :: "cs_item list \<Rightarrow> suggestion_state \<Rightarrow> suggestion_state" where
  "push_all items st = foldl (\<lambda>s item. push_suggestion item s) st items"

text \<open>The first \<open>n\<close> of the items with a property, by descending priority, pushed.\<close>

definition push_top :: "nat \<Rightarrow> (cs_item \<Rightarrow> bool) \<Rightarrow> cs_item list \<Rightarrow> suggestion_state \<Rightarrow> suggestion_state" where
  "push_top n wanted candidates st = push_all (take n (sort_by_priority (filter wanted candidates))) st"

definition compatible_with_any :: "string list \<Rightarrow> cs_item \<Rightarrow> bool" where
  "compatible_with_any categories item =
     list_ex (\<lambda>category. category \<in> set categories) (cs_compatibleWith item)"

definition cleaning_pass ::
  "string list \<Rightarrow> bool \<Rightarrow> cs_item list \<Rightarrow> suggestion_state \<Rightarrow> suggestion_state" where
  "cleaning_pass categories has_screen_device eligible st =
     (if has_screen_device \<and> categories \<noteq> [] then
        push_top 2 (\<lambda>item. CROSS_SELL_CLEANING_TAG \<in> set (cs_tags item)
                            \<and> compatible_with_any categories item) eligible st
      else st)"

definition pc_pass ::
  "string list \<Rightarrow> cart_item list \<Rightarrow> cs_item list \<Rightarrow> suggestion_state \<Rightarrow> suggestion_state" where
  "pc_pass categories cart_items eligible st =
     (if ''pc'' \<in> set categories then
        (let needs_usb_c = \<not> has_accessory_keyword cart_items [''usb-c'', ''usb c''];
             needs_charger = \<not> has_accessory_keyword cart_items [''charger'', ''caricatore''];
             pc_candidates = filter (\<lambda>item. ''pc'' \<in> set (cs_compatibleWith item)) eligible;
             st1 = (if needs_usb_c
                    then push_top 1 (\<lambda>item. ''usb-c'' \<in> set (cs_tags item)) pc_candidates st
                    else st)
         in if needs_charger
            then push_top 1 (\<lambda>item. ''charger'' \<in> set (cs_tags item)) pc_candidates st1
            else st1)
      else st)"

definition tv_pass ::
  "string list \<Rightarrow> cart_item list \<Rightarrow> cs_item list \<Rightarrow> suggestion_state \<Rightarrow> suggestion_state" where
  "tv_pass categories cart_items eligible st =
     (if ''tv'' \<in> set categories then
        (let normalized_cart_text = normalize_text (collect_cart_text cart_items);
             needs_hdmi = \<not> is_substr ''hdmi'' normalized_cart_text;
             needs_soundbar = \<not> has_accessory_keyword cart_items [''soundbar''];
             needs_subwoofer = \<not> has_accessory_keyword cart_items [''subwoofer''];
             needs_led = \<not> has_accessory_keyword cart_items
                             [''led'', ''lighting'', ''ambient'', ''backlight'', ''back light''];
             needs_mount = \<not> has_accessory_keyword cart_items
                               [''support'', ''staffa'', ''mount'', ''bracket'', ''stand''];
             tv_candidates = filter (\<lambda>item. ''tv'' \<in> set (cs_compatibleWith item)) eligible;
             st1 = (if needs_soundbar
                    then push_top 1 (\<lambda>item. CROSS_SELL_SOUNDBAR_TAG \<in> set (cs_tags item))
                           tv_candidates st
                    else st);
             st2 = (if needs_subwoofer
                    then push_top 1 (\<lambda>item. CROSS_SELL_SUBWOOFER_TAG \<in> set (cs_tags item))
                           tv_candidates st1
                    else st1);
             st3 = (if needs_hdmi
                    then push_top 1 (\<lambda>item. ''hdmi'' \<in> set (cs_tags item)) tv_candidates st2
                    else st2);
             st4 = push_top 1 (\<lambda>item. ''remote'' \<in> set (cs_tags item)) tv_candidates st3;
             st5 = (if needs_mount
                    then push_top 1
                           (\<lambda>item. list_ex (\<lambda>tag. tag \<in> set [''tv-mount'', ''stand'', CROSS_SELL_MOUNT_TAG])
                                      (cs_tags item))
                           tv_candidates st4
                    else st4)
         in if needs_led
            then push_top 1 (\<lambda>item. CROSS_SELL_LED_TAG \<in> set (cs_tags item)) tv_candidates st5
            else st5)
      else st)"

definition fallback_score :: "string list \<Rightarrow> bool \<Rightarrow> cs_item \<Rightarrow> int" where
  "fallback_score categories has_screen_device item =
     cs_priority item
     + (if has_screen_device \<and> CROSS_SELL_CLEANING_TAG \<in> set (cs_tags item) then 15 else 0)
     + (if CROSS_SELL_SOUNDBAR_TAG \<in> set (cs_tags item) then 20 else 0)
     + (if CROSS_SELL_SUBWOOFER_TAG \<in> set (cs_tags item) then 18 else 0)
     + (if CROSS_SELL_LED_TAG \<in> set (cs_tags item) then 6 else 0)
     + (if ''pc'' \<in> set categories \<and> ''pc'' \<in> set (cs_compatibleWith item) then 10 else 0)
     + (if ''tv'' \<in> set categories \<and> ''tv'' \<in> set (cs_compatibleWith item) then 10 else 0)
     + (if CROSS_SELL_POPULAR_TAG \<in> set (cs_tags item) then 4 else 0)"

text \<open>
  The scored pass: the eligible items not yet suggested and compatible with a detected
  class, by descending score (\<open>scored.sort(..., reverse=True)\<close>, stable), pushed.
\<close>

definition scored_pass ::
  "string list \<Rightarrow> bool \<Rightarrow> cs_item list \<Rightarrow> suggestion_state \<Rightarrow> suggestion_state" where
  "scored_pass categories has_screen_device eligible st =
     (let scored =
            filter (\<lambda>item. \<not> (cs_sku item = [] \<or> cs_sku item \<in> set (snd st))
                            \<and> \<not> (categories \<noteq> [] \<and> \<not> compatible_with_any categories item))
              eligible
      in push_all (sort_key (\<lambda>item. - fallback_score categories has_screen_device item) scored) st)"

definition eligible_items :: "cart_item list \<Rightarrow> cs_item list \<Rightarrow> cs_item list" where
  "eligible_items cart_items catalog =
     (case get_cart_identifiers cart_items of (cart_ids, cart_names) \<Rightarrow>
        dedupe_by_sku
          (filter (\<lambda>item. normalize_text (cs_sku item) \<notin> set cart_ids
                           \<and> normalize_text (cs_id item) \<notin> set cart_ids
                           \<and> normalize_text (cs_name item) \<notin> set cart_names) catalog))"

definition get_cross_sell_suggestions :: "cart_item list \<Rightarrow> cs_item list \<Rightarrow> int \<Rightarrow> cs_item list" where
  "get_cross_sell_suggestions cart_items catalog max_results =
     (if cart_items = [] \<or> catalog = [] then []
      else (case get_cart_category_intent cart_items of (categories, has_screen_device) \<Rightarrow>
              (let eligible = eligible_items cart_items catalog;
                   st = scored_pass categories has_screen_device eligible
                          (tv_pass categories cart_items eligible
                             (pc_pass categories cart_items eligible
                                (cleaning_pass categories has_screen_device eligible ([], []))))
               in py_take max_results (fst st))))"

subsection \<open>The catalog derived from the live products\<close>

text \<open>
  \<open>_extract_price_from_product\<close>: the price as a float, 0 when there is none. It has
  no truthiness test; on the modelled shapes of a price it returns what \<open>get_price\<close>
  returns.
\<close>

definition extract_price_from_product :: "product \<Rightarrow> pyfloat" where
  "extract_price_from_product p =
     (case p_price p of
        PriceAbsent \<Rightarrow> Finite 0
      | PriceNum v \<Rightarrow> v
      | PriceStr parsed \<Rightarrow> (case parsed of None \<Rightarrow> Finite 0 | Some v \<Rightarrow> v)
      | PriceRange amountMax amountMin \<Rightarrow> range_amount amountMax amountMin)"

text \<open>
  \<open>_resolve_cart_products\<close>: the lookup dictionary is filled product by product, a
  later product replacing an earlier one under the same key. A name enters the
  dictionary when it is a non-empty string.
\<close>

definition lookup_entries :: "product \<Rightarrow> (string \<times> product) list" where
  "lookup_entries p =
     (if p_id p \<noteq> [] then [(normalize_text (p_id p), p)] else [])
     @ (case p_name p of
          None \<Rightarrow> []
        | Some product_name \<Rightarrow>
            if product_name \<noteq> [] then [(normalize_text product_name, p)] else [])"

definition resolve_cart_products :: "cart_item list \<Rightarrow> product list \<Rightarrow> product list" where
  "resolve_cart_products cart_items products =
     (if cart_items = [] \<or> products = [] then []
      else (let lookup = map_of (rev (concat (map lookup_entries products)))
            in concat (map (\<lambda>item.
                   (case lookup (normalize_text (ci_id item)) of
                      Some p \<Rightarrow> [p]
                    | None \<Rightarrow> (case lookup (normalize_text (ci_name item)) of
                                 Some p \<Rightarrow> [p]
                               | None \<Rightarrow> []))) cart_items)))"

definition detect_cart_intent_from_products :: "product list \<Rightarrow> string list \<times> bool" where
  "detect_cart_intent_from_products cart_products =
     (if cart_products = [] then ([], False)
      else (let normalized_categories =
                  normalize_text
                    (join '' '' (map (\<lambda>p. join '' '' (extract_product_categories p)) cart_products));
                normalized_names =
                  normalize_text (join '' '' (map (\<lambda>p. name_str (p_name p)) cart_products));
                has_tv = any_keyword_in [''tv'', ''televis''] normalized_categories;
                has_pc = any_keyword_in [''laptop'', ''computer'', ''desktop'', ''notebook'', ''pc'']
                           normalized_categories;
                has_audio = any_keyword_in CROSS_SELL_AUDIO_KEYWORDS normalized_names;
                has_led = any_keyword_in CROSS_SELL_LED_KEYWORDS normalized_names
            in ((if has_pc then [''pc''] else []) @ (if has_tv then [''tv''] else [])
                @ (if has_audio then [''audio''] else []) @ (if has_led then [''led''] else []),
                has_pc \<or> has_tv \<or> has_audio \<or> has_led)))"

text \<open>
  \<open>_map_product_to_cross_sell_item\<close>. The item carries the name of the row; the
  caller keeps an item only when its name is truthy, which drops \<open>None\<close> and the empty
  string alike, so the item of the model carries the empty string for both.
\<close>

definition map_product_to_cross_sell_item :: "product \<Rightarrow> cs_item" where
  "map_product_to_cross_sell_item p =
     (let sku = p_id p;
          normalized_categories = normalize_text (join '' '' (extract_product_categories p));
          normalized_name = normalize_text (name_str (p_name p));
          normalized_text = normalize_text (normalized_name @ '' '' @ normalized_categories);
          tags =
            (if is_substr ''panno'' normalized_categories \<or> is_substr ''clean'' normalized_categories
             then [CROSS_SELL_CLEANING_TAG] else [])
            @ (if is_substr ''cavi'' normalized_categories \<or> is_substr ''hdmi'' normalized_categories
               then [CROSS_SELL_POPULAR_TAG] else [])
            @ (if is_substr ''telecomand'' normalized_categories
                  \<or> is_substr ''caric'' normalized_categories
               then [CROSS_SELL_RECOMMENDED_TAG] else [])
            @ (if is_substr ''soundbar'' normalized_text then [CROSS_SELL_SOUNDBAR_TAG] else [])
            @ (if is_substr ''subwoofer'' normalized_text then [CROSS_SELL_SUBWOOFER_TAG] else [])
            @ (if any_keyword_in CROSS_SELL_LED_KEYWORDS normalized_text
               then [CROSS_SELL_LED_TAG] else [])
            @ (if any_keyword_in CROSS_SELL_MOUNT_KEYWORDS normalized_text
               then [CROSS_SELL_MOUNT_TAG] else []);
          compatible0 =
            (if is_substr ''tv'' normalized_categories \<or> is_substr ''televis'' normalized_categories
             then [''tv''] else [])
            @ (if any_keyword_in [''computer'', ''laptop'', ''desktop'', ''pc''] normalized_categories
               then [''pc''] else []);
          compatible_with =
            (if list_ex (\<lambda>tag. tag \<in> set tags)
                  [CROSS_SELL_SOUNDBAR_TAG, CROSS_SELL_SUBWOOFER_TAG, CROSS_SELL_LED_TAG,
                   CROSS_SELL_MOUNT_TAG]
                \<and> ''tv'' \<notin> set compatible0
             then compatible0 @ [''tv''] else compatible0);
          priority =
            (if CROSS_SELL_CLEANING_TAG \<in> set tags then 90
             else if CROSS_SELL_SOUNDBAR_TAG \<in> set tags then 88
             else if CROSS_SELL_SUBWOOFER_TAG \<in> set tags then 86
             else if CROSS_SELL_MOUNT_TAG \<in> set tags then 82
             else if CROSS_SELL_LED_TAG \<in> set tags then 80
             else if is_substr ''cavi'' normalized_categories then 82
             else if is_substr ''telecomand'' normalized_categories then 78
             else if is_substr ''caric'' normalized_categories then 76
             else 60)
      in \<lparr>cs_id = sku, cs_sku = sku, cs_name = name_or_empty (p_name p),
          cs_price = extract_price_from_product p,
          cs_tags = tags, cs_compatibleWith = compatible_with, cs_priority = priority\<rparr>)"

definition is_accessory_for :: "string list \<Rightarrow> product \<Rightarrow> bool" where
  "is_accessory_for categories p =
     (let normalized_categories = normalize_text (join '' '' (extract_product_categories p));
          normalized_name = normalize_text (name_str (p_name p));
          normalized_text = normalize_text (normalized_name @ '' '' @ normalized_categories)
      in if ''tv'' \<in> set categories
            \<and> any_keyword_in [''cavi per tv'', ''telecomandi per tv'', ''panno per tv'', ''staff'',
                                ''support''] normalized_text
         then True
         else if ''pc'' \<in> set categories
            \<and> any_keyword_in [''cavi per computer'', ''panno per computer'', ''caric'',
                                ''alimentatore'', ''adattatore'', ''hub'', ''accessori'']
                  normalized_text
         then True
         else if ''tv'' \<in> set categories
            \<and> any_keyword_in (CROSS_SELL_AUDIO_KEYWORDS @ CROSS_SELL_LED_KEYWORDS
                                  @ CROSS_SELL_MOUNT_KEYWORDS) normalized_text
         then True
         else if ''audio'' \<in> set categories
            \<and> any_keyword_in (CROSS_SELL_AUDIO_KEYWORDS @ CROSS_SELL_MOUNT_KEYWORDS) normalized_text
         then True
         else False)"

definition get_cross_sell_suggestions_from_db ::
  "cart_item list \<Rightarrow> product list \<Rightarrow> int \<Rightarrow> cs_item list" where
  "get_cross_sell_suggestions_from_db cart_items products max_results =
     (if cart_items = [] \<or> products = [] then []
      else (case detect_cart_intent_from_products (resolve_cart_products cart_items products) of
              (categories, has_screen_device) \<Rightarrow>
                (let accessory_products = filter (is_accessory_for categories) products;
                     catalog = filter (\<lambda>item. float_lt (Finite 0) (cs_price item)
                                               \<and> cs_name item \<noteq> [])
                                 (map map_product_to_cross_sell_item accessory_products);
                     suggestions = get_cross_sell_suggestions cart_items catalog max_results;
                     suggestions' = (if has_screen_device
                                     then filter (\<lambda>item. cs_sku item \<noteq> []) suggestions
                                     else suggestions)
                 in py_take max_results suggestions')))"

text \<open>
  The tool \<open>cross_sell_recommendations\<close>, given the rows the catalog returned: the live
  pass, and the fixed catalog when there are no rows or the live pass suggests nothing.
\<close>

definition cross_sell_recommendations ::
  "product list \<Rightarrow> cart_item list \<Rightarrow> int \<Rightarrow> cs_item list" where
  "cross_sell_recommendations products cart_items max_results =
     (if products \<noteq> [] then
        (let suggestions = get_cross_sell_suggestions_from_db cart_items products max_results
         in if suggestions = []
            then get_cross_sell_suggestions cart_items CROSS_SELL_FALLBACK_CATALOG max_results
            else suggestions)
      else get_cross_sell_suggestions cart_items CROSS_SELL_FALLBACK_CATALOG max_results)"

section \<open>Solution bundle builder\<close>

definition filter_products_by_name_keywords :: "product list \<Rightarrow> string list \<Rightarrow> product list" where
  "filter_products_by_name_keywords products keywords =
     (if products = [] \<or> keywords = [] then []
      else (let normalized_keywords = map (\<lambda>kw. strip (lower kw)) (filter (\<lambda>kw. kw \<noteq> []) keywords)
            in filter (\<lambda>p. let name = normalize_text (name_str (p_name p))
                             in name \<noteq> [] \<and> any_keyword_in normalized_keywords name) products))"

text \<open>
  \<open>_filter_products_for_bundle\<close>: the products named by a slot keyword, without the
  accessories when an exclusion list is given; when every candidate is an accessory the
  candidates stay as they are (\<open>filtered or candidates\<close>).
\<close>

definition filter_products_for_bundle ::
  "product list \<Rightarrow> string list \<Rightarrow> string list option \<Rightarrow> product list" where
  "filter_products_for_bundle products include_keywords accessory_exclusions =
     (let candidates = filter_products_by_name_keywords products include_keywords
      in case accessory_exclusions of
           None \<Rightarrow> candidates
         | Some excl \<Rightarrow>
             if candidates = [] \<or> excl = [] then candidates
             else (let exclusions = map (\<lambda>kw. strip (lower kw)) (filter (\<lambda>kw. kw \<noteq> []) excl);
                       filtered = filter (\<lambda>p. \<not> is_accessory_product p exclusions) candidates
                   in if filtered \<noteq> [] then filtered else candidates))"

text \<open>
  The sort key \<open>price if price > 0 else float("inf")\<close>: a pair whose first component
  is 0 for a positive price and 1 for infinity, ordered lexicographically. A NaN price
  is not greater than 0, so its key is infinity.
\<close>

definition price_sort_key :: "product \<Rightarrow> nat \<times> rat" where
  "price_sort_key p =
     (case extract_price_from_product p of
        Finite price \<Rightarrow> if price > 0 then (0, price) else (1, 0)
      | NaN \<Rightarrow> (1, 0))"

text \<open>
  \<open>_sort_products_by_price\<close>: a stable ascending sort by the key, then reversed as a
  whole for the preference "high". An absent preference is not modelled (the tool always
  passes one).
\<close>

definition sort_products_by_price :: "product list \<Rightarrow> string \<Rightarrow> product list" where
  "sort_products_by_price products preference =
     (if products = [] then []
      else (let scored = sort_key price_sort_key products
            in if lower (if preference = [] then ''low'' else preference) = ''high''
               then rev scored else scored))"

text \<open>
  The loop of \<open>_select_products_by_price\<close> over the sorted products, with the list
  \<open>selected\<close> and the set \<open>seen_ids\<close>, which the caller shares between the slots.
\<close>

fun select_loop ::
  "product list \<Rightarrow> int \<Rightarrow> product list \<Rightarrow> string list \<Rightarrow> product list \<times> string list" where
  "select_loop [] limit selected seen_ids = (selected, seen_ids)"
| "select_loop (p # ps) limit selected seen_ids =
     (if p_id p \<noteq> [] \<and> p_id p \<in> set seen_ids then select_loop ps limit selected seen_ids
      else (let seen_ids' = (if p_id p \<noteq> [] then p_id p # seen_ids else seen_ids);
                selected' = selected @ [p]
            in if int (length selected') \<ge> limit then (selected', seen_ids')
               else select_loop ps limit selected' seen_ids'))"

definition select_products_by_price ::
  "product list \<Rightarrow> string \<Rightarrow> int \<Rightarrow> string list \<Rightarrow> product list \<times> string list" where
  "select_products_by_price products preference limit seen_ids =
     (if products = [] \<or> limit \<le> 0 then ([], seen_ids)
      else select_loop (sort_products_by_price products preference) limit [] seen_ids)"

definition bundle_selections :: "(string list \<times> int) list" where
  "bundle_selections =
     [(CROSS_SELL_TV_KEYWORDS, 2),
      (SOLUTION_BUNDLE_SOUNDBAR_KEYWORDS, 2),
      (SOLUTION_BUNDLE_SUBWOOFER_KEYWORDS, 1),
      (CROSS_SELL_LED_KEYWORDS, 1)]"

text \<open>The loop over the slots; every slot excludes accessories.\<close>

fun bundle_loop ::
  "(string list \<times> int) list \<Rightarrow> product list \<Rightarrow> string \<Rightarrow> product list \<Rightarrow> string list
     \<Rightarrow> product list" where
  "bundle_loop [] products price_preference bundle_items seen_ids = bundle_items"
| "bundle_loop ((keywords, limit) # selections) products price_preference bundle_items seen_ids =
     (let candidates = filter_products_for_bundle products keywords
                         (Some BUNDLE_ACCESSORY_EXCLUDE_KEYWORDS)
      in case select_products_by_price candidates price_preference limit seen_ids of
           (chosen_items, seen_ids') \<Rightarrow>
             bundle_loop selections products price_preference (bundle_items @ chosen_items)
               seen_ids')"

definition build_solution_bundle_catalog :: "product list \<Rightarrow> string \<Rightarrow> product list" where
  "build_solution_bundle_catalog products price_preference =
     (if products = [] then []
      else bundle_loop bundle_selections products price_preference [] [])"


section \<open>Checkout amounts\<close>

definition ZERO_DECIMAL_CURRENCIES :: "string list" where
  "ZERO_DECIMAL_CURRENCIES =
     [''bif'', ''clp'', ''djf'', ''gnf'', ''jpy'', ''kmf'', ''krw'', ''mga'', ''pyg'', ''rwf'',
      ''ugx'', ''vnd'', ''vuv'', ''xaf'', ''xof'', ''xpf'']"

definition THREE_DECIMAL_CURRENCIES :: "string list" where
  "THREE_DECIMAL_CURRENCIES = [''bhd'', ''jod'', ''kwd'', ''omr'', ''tnd'']"

definition currency_exponent :: "string \<Rightarrow> nat" where
  "currency_exponent currency =
     (let currency_lower = lower currency
      in if currency_lower \<in> set ZERO_DECIMAL_CURRENCIES then 0
         else if currency_lower \<in> set THREE_DECIMAL_CURRENCIES then 3
         else 2)"

text \<open>
  \<open>Decimal.quantize(Decimal(1) / Decimal(10) ** exponent, rounding=ROUND_HALF_UP)\<close>
  on a finite decimal: the coefficient of the result, which is the value scaled by
  \<open>10 ^ exponent\<close> and rounded to the nearest integer, halves away from zero. Under
  the default context (28 digits of precision) \<open>quantize\<close> signals
  \<open>InvalidOperation\<close> when that coefficient has more than 28 digits.
\<close>

definition round_half_up :: "rat \<Rightarrow> int" where
  "round_half_up x = (if 0 \<le> x then \<lfloor>x + 1 / 2\<rfloor> else - \<lfloor>- x + 1 / 2\<rfloor>)"

definition decimal_precision :: nat where
  "decimal_precision = 28"

definition quantize_coefficient :: "rat \<Rightarrow> nat \<Rightarrow> py_error + int" where
  "quantize_coefficient x exponent =
     (let coefficient = round_half_up (x * 10 ^ exponent)
      in if \<bar>coefficient\<bar> \<ge> 10 ^ decimal_precision then Inl InvalidOperation
         else Inr coefficient)"

text \<open>
  \<open>_to_minor_amount\<close>. The argument is the finite decimal that
  \<open>Decimal(str(amount_major))\<close> denotes: \<open>str\<close> prints the float \<open>10.005\<close> as
  "10.005" and the integer \<open>100\<close> as "100". The quantized decimal times
  \<open>10 ** exponent\<close> is its coefficient, an integer that \<open>int\<close> returns unchanged
  (the product is exact: the digits dropped at 28 digits of precision are zeros).
\<close>

definition to_minor_amount :: "rat \<Rightarrow> string \<Rightarrow> py_error + int" where
  "to_minor_amount amount_major currency =
     quantize_coefficient amount_major (currency_exponent currency)"

section \<open>Binary floating point\<close>

text \<open>
  The totals use two float operations on the integer subtotal, \<open>subtotal * 0.10\<close> and
  \<open>subtotal / 100.0\<close>. A finite double is modelled by the rational it denotes, and an
  operation by the exact result rounded to the nearest double, ties to even
  (IEEE 754 binary64: 53 significant bits, least exponent of the last place -1074,
  overflow to infinity from \<open>2 ^ 1024\<close> on).
\<close>

text \<open>The integer part of the binary logarithm of a positive rational.\<close>

definition ilog2 :: "rat \<Rightarrow> int" where
  "ilog2 x =
     (case quotient_of x of (a, b) \<Rightarrow>
        (let d = bitlen a - bitlen b in if 2 powi d \<le> x then d else d - 1))"

definition round_half_even :: "rat \<Rightarrow> int" where
  "round_half_even y =
     (let n = \<lfloor>y\<rfloor>; r = y - of_int n
      in if r < 1 / 2 then n else if 1 / 2 < r then n + 1 else if even n then n else n + 1)"

text \<open>The exponent of the unit in the last place of the double nearest to \<open>x > 0\<close>.\<close>

definition ulp_exponent :: "rat \<Rightarrow> int" where
  "ulp_exponent x = max (ilog2 x - 52) (- 1074)"

definition round_magnitude :: "rat \<Rightarrow> rat" where
  "round_magnitude x =
     of_int (round_half_even (x / 2 powi ulp_exponent x)) * 2 powi ulp_exponent x"

text \<open>The nearest double; \<open>None\<close> stands for an infinity.\<close>

definition round_to_double :: "rat \<Rightarrow> rat option" where
  "round_to_double x =
     (if x = 0 then Some 0
      else (let r = round_magnitude \<bar>x\<bar>
            in if r \<ge> 2 ^ 1024 then None else Some (if x < 0 then - r else r)))"

text \<open>The float literal \<open>0.10\<close>: the double nearest to one tenth.\<close>

definition DOUBLE_TENTH :: rat where
  "DOUBLE_TENTH = 3602879701896397 / 36028797018963968"

text \<open>
  \<open>float(n)\<close> as Python applies it to an integer operand of a float operation:
  \<open>OverflowError\<close> when the integer is too large.
\<close>

definition float_of_int :: "int \<Rightarrow> py_error + rat" where
  "float_of_int n =
     (case round_to_double (of_int n) of None \<Rightarrow> Inl OverflowError | Some v \<Rightarrow> Inr v)"

text \<open>\<open>int(w)\<close> on a finite float: truncation towards zero.\<close>

definition int_of_float :: "rat \<Rightarrow> int" where
  "int_of_float w = (if 0 \<le> w then \<lfloor>w\<rfloor> else - \<lfloor>- w\<rfloor>)"

text \<open>\<open>int(subtotal * 0.10)\<close>; \<open>int\<close> of an infinity raises \<open>OverflowError\<close>.\<close>

definition int_of_tenth :: "int \<Rightarrow> py_error + int" where
  "int_of_tenth subtotal =
     (case float_of_int subtotal of
        Inl e \<Rightarrow> Inl e
      | Inr v \<Rightarrow>
          (case round_to_double (v * DOUBLE_TENTH) of
             None \<Rightarrow> Inl OverflowError
           | Some w \<Rightarrow> Inr (int_of_float w)))"

text \<open>\<open>(subtotal / 100.0) < 50.0\<close>.\<close>

definition hundredth_below_fifty :: "int \<Rightarrow> py_error + bool" where
  "hundredth_below_fifty subtotal =
     (case float_of_int subtotal of
        Inl e \<Rightarrow> Inl e
      | Inr v \<Rightarrow>
          (case round_to_double (v / 100) of
             None \<Rightarrow> Inr (v < 0)
           | Some w \<Rightarrow> Inr (w < 50)))"

section \<open>Checkout totals\<close>

text \<open>
  A cart item (\<open>CheckoutCartItemInput\<close>) with the fields the totals read; the amount
  is the decimal that \<open>str(unit_amount_major)\<close> prints, as in
  \<open>to_minor_amount\<close>.
\<close>

record checkout_item =
  item_name :: string
  item_quantity :: int
  item_unit_amount_major :: rat

record checkout_totals =
  subtotal_minor :: int
  discount_minor :: int
  tax_minor :: int
  shipping_minor :: int
  grand_total_minor :: int
  totals_currency :: string

text \<open>The loop over the items, with the running subtotal.\<close>

fun subtotal_loop :: "checkout_item list \<Rightarrow> string \<Rightarrow> int \<Rightarrow> py_error + int" where
  "subtotal_loop [] currency subtotal = Inr subtotal"
| "subtotal_loop (item # items) currency subtotal =
     (case to_minor_amount (item_unit_amount_major item) currency of
        Inl e \<Rightarrow> Inl e
      | Inr unit_amount \<Rightarrow>
          if unit_amount \<le> 0 then Inl ValueError
          else subtotal_loop items currency (subtotal + unit_amount * item_quantity item))"

text \<open>\<open>promo_code and promo_code.upper() == "WELCOME10"\<close>.\<close>

definition promo_applies :: "string option \<Rightarrow> bool" where
  "promo_applies promo_code =
     (case promo_code of
        None \<Rightarrow> False
      | Some code \<Rightarrow> code \<noteq> [] \<and> upper code = ''WELCOME10'')"

definition compute_checkout_totals ::
  "checkout_item list \<Rightarrow> string \<Rightarrow> string option \<Rightarrow> py_error + checkout_totals" where
  "compute_checkout_totals items currency promo_code =
     (case subtotal_loop items currency 0 of
        Inl e \<Rightarrow> Inl e
      | Inr subtotal \<Rightarrow>
          (case (if promo_applies promo_code then int_of_tenth subtotal else Inr 0) of
             Inl e \<Rightarrow> Inl e
           | Inr discount \<Rightarrow>
               (let taxable_base = max 0 (subtotal - discount);
                    tax = 0
                in case (if upper currency = ''EUR''
                         then (case hundredth_below_fifty subtotal of
                                 Inl e \<Rightarrow> Inl e
                               | Inr below \<Rightarrow> Inr (if below then 500 else 0))
                         else Inr 0) of
                     Inl e \<Rightarrow> Inl e
                   | Inr shipping \<Rightarrow>
                       Inr \<lparr>subtotal_minor = subtotal, discount_minor = discount,
                            tax_minor = tax, shipping_minor = shipping,
                            grand_total_minor = max 0 (taxable_base + shipping),
                            totals_currency = upper currency\<rparr>)))"

section \<open>Sample data\<close>

definition plain_product :: "string \<Rightarrow> string \<Rightarrow> price_field \<Rightarrow> product" where
  "plain_product ident name price =
     \<lparr>p_id = ident, p_name = Some name, p_price = price, p_descrizione = [],
      p_primaryCategories = CatAbsent, p_categories = CatAbsent\<rparr>"

definition tagged_product :: "string \<Rightarrow> string \<Rightarrow> price_field \<Rightarrow> string \<Rightarrow> product" where
  "tagged_product ident name price cats =
     \<lparr>p_id = ident, p_name = Some name, p_price = price, p_descrizione = [],
      p_primaryCategories = CatStr cats, p_categories = CatAbsent\<rparr>"

text \<open>A criteria bag with the target size as its only key.\<close>

definition size_only_criteria :: "int \<Rightarrow> criteria" where
  "size_only_criteria target_size =
     \<lparr>c_size_inches = Some target_size, c_target_price = None, c_max_price = None,
      c_min_price = None, c_keywords = None\<rparr>"

definition empty_criteria :: criteria where
  "empty_criteria =
     \<lparr>c_size_inches = None, c_target_price = None, c_max_price = None,
      c_min_price = None, c_keywords = None\<rparr>"

definition sample_untagged :: product where
  "sample_untagged =
     \<lparr>p_id = ''2'', p_name = Some ''Cavo'', p_price = PriceNum (Finite 5), p_descrizione = [],
      p_primaryCategories = CatStr '' , '', p_categories = CatList []\<rparr>"

definition sample_tv :: product where
  "sample_tv = tagged_product ''1'' ''Smart TV 50 inch'' (PriceNum (Finite 300)) ''TV, Video''"

definition sample_ranking_input :: "product list" where
  "sample_ranking_input =
     [plain_product ''d'' ''TV 45 inch'' (PriceNum (Finite 100)),
      plain_product ''a'' ''TV 50 inch B'' (PriceNum (Finite 300)),
      plain_product ''b'' ''TV 50 inch A'' (PriceStr (Some (Finite 300))),
      plain_product ''c'' ''TV 50 inch C'' (PriceNum (Finite 500))]"

definition sample_ranking_output :: "product list" where
  "sample_ranking_output =
     [plain_product ''c'' ''TV 50 inch C'' (PriceNum (Finite 500)),
      plain_product ''b'' ''TV 50 inch A'' (PriceStr (Some (Finite 300))),
      plain_product ''a'' ''TV 50 inch B'' (PriceNum (Finite 300)),
      plain_product ''d'' ''TV 45 inch'' (PriceNum (Finite 100))]"

definition sample_cart :: "cart_item list" where
  "sample_cart =
     [\<lparr>ci_id = ''CS-HDMI-01'', ci_name = ''Cavo HDMI'', ci_description = None,
       ci_short_description = None, ci_detail_summary = None, ci_tags = None,
       ci_category = None\<rparr>,
      \<lparr>ci_id = ''tv-1'', ci_name = ''Smart TV 50 inch'', ci_description = Some ''OLED 4K'',
       ci_short_description = None, ci_detail_summary = None, ci_tags = Some [''tv''],
       ci_category = Some ''TV''\<rparr>]"

text \<open>
  Three rows without a size in the name, the second with a NaN price; and two rows of
  the same price, the first with a null name.
\<close>

definition sample_nan_price_products :: "product list" where
  "sample_nan_price_products =
     [plain_product ''a'' ''A'' (PriceNum (Finite 100)),
      plain_product ''n'' ''N'' (PriceNum NaN),
      plain_product ''b'' ''B'' (PriceNum (Finite 200))]"

definition sample_null_name_products :: "product list" where
  "sample_null_name_products =
     [\<lparr>p_id = ''x'', p_name = None, p_price = PriceNum (Finite 100), p_descrizione = [],
       p_primaryCategories = CatAbsent, p_categories = CatAbsent\<rparr>,
      plain_product ''y'' ''Y'' (PriceNum (Finite 100))]"

text \<open>
  A cart whose first item is named like the SKU of a catalog item and whose second item
  has the name of another catalog item as its identifier.
\<close>

definition sample_crossed_cart :: "cart_item list" where
  "sample_crossed_cart =
     [\<lparr>ci_id = ''tv-1'', ci_name = ''CS-HDMI-01'', ci_description = None,
       ci_short_description = None, ci_detail_summary = None, ci_tags = None,
       ci_category = Some ''TV''\<rparr>,
      \<lparr>ci_id = ''Staffa TV slim orientabile'', ci_name = ''Smart TV 50 inch'',
       ci_description = None, ci_short_description = None, ci_detail_summary = None,
       ci_tags = None, ci_category = None\<rparr>]"


definition sample_unpriced_tv :: product where
  "sample_unpriced_tv = plain_product ''t0'' ''Smart TV 55'' PriceAbsent"

definition sample_bundle_products :: "product list" where
  "sample_bundle_products =
     [plain_product ''t1'' ''Smart TV 65'' (PriceNum (Finite 900)),
      plain_product ''t2'' ''Smart TV 43'' (PriceNum (Finite 300)),
      plain_product ''t3'' ''Smart TV 50'' (PriceNum (Finite 500)),
      plain_product ''s1'' ''Soundbar 2.1'' (PriceNum (Finite 150)),
      plain_product ''w1'' ''Subwoofer attivo'' (PriceNum (Finite 120))]"



definition sample_checkout_items :: "checkout_item list" where
  "sample_checkout_items =
     [\<lparr>item_name = ''TV'', item_quantity = 2, item_unit_amount_major = 1999 / 100\<rparr>,
      \<lparr>item_name = ''Cavo'', item_quantity = 1, item_unit_amount_major = 5\<rparr>]"

definition sample_huge_item :: checkout_item where
  "sample_huge_item =
     \<lparr>item_name = ''Villa'', item_quantity = 1, item_unit_amount_major = 10 ^ 26\<rparr>"

section \<open>Properties of the category filter\<close>



lemma product_categories_empty_when_missing:
  assumes "p_primaryCategories p \<in> {CatAbsent, CatList [], CatStr []}"
    and "p_categories p \<in> {CatAbsent, CatList [], CatStr []}"
  shows "product_categories p = []"
  using assms by (auto simp add: product_categories_def field_categories_def)

text \<open>
  C9. For a non-empty category string, a product from which no category tag can be
  extracted (\<open>product_categories\<close> is empty: both fields absent, empty, or holding
  empty tags only) is never in the filtered output.
\<close>

theorem filter_products_by_category_drops_untagged:
  "category \<noteq> [] \<Longrightarrow> product_categories p = [] \<Longrightarrow>
     p \<notin> set (filter_products_by_category products category)"
  by (auto simp add: filter_products_by_category_def product_matches_def Let_def)

theorem filter_products_by_category_drops_untagged_witness:
  "''tv'' \<noteq> [] \<and> product_categories sample_untagged = []
   \<and> sample_untagged \<notin> set (filter_products_by_category [sample_untagged, sample_tv] ''tv'')
   \<and> sample_tv \<in> set (filter_products_by_category [sample_untagged, sample_tv] ''tv'')"
proof -
  have cat: "''tv'' \<noteq> []" by simp
  have none: "product_categories sample_untagged = []"
    unfolding sample_untagged_def by code_simp
  have kept: "sample_tv \<in> set (filter_products_by_category [sample_untagged, sample_tv] ''tv'')"
    unfolding sample_untagged_def sample_tv_def tagged_product_def by code_simp
  from filter_products_by_category_drops_untagged [OF cat none, of "[sample_untagged, sample_tv]"]
  show ?thesis using none kept by simp
qed

section \<open>Properties of the relevance ranking\<close>

lemma relevance_score_size_only:
  "relevance_score (size_only_criteria t) p = size_score (size_only_criteria t) p"
  by (simp add: relevance_score_def size_only_criteria_def home_theater_score_def
      keyword_score_def range_score_def target_price_score_def criteria_keywords_def
      has_home_theater_intent_def)

lemma size_score_value:
  assumes "extract_size_from_name (p_name p) = Some product_size" and "product_size \<noteq> 0"
    and "c_size_inches c = Some target_size" and "target_size \<noteq> 0"
  shows "size_score c p =
           (if \<bar>product_size - target_size\<bar> = 0 then 0
            else if \<bar>product_size - target_size\<bar> \<le> 5
              then of_int (10 + \<bar>product_size - target_size\<bar>)
              else of_int (50 + \<bar>product_size - target_size\<bar>))"
  using assms by (simp add: size_score_def Let_def)

lemma extract_size_tv45: "extract_size_from_name (Some ''TV 45 inch'') = Some 45"
  by code_simp

text \<open>
  C1, as the code has it. When the name of a product yields a size other than 0 and the
  criteria bag holds a target size other than 0, the score after the size step is fixed
  by the absolute difference \<open>d\<close> of the two: 0 when \<open>d = 0\<close>, \<open>10 + d\<close> when
  \<open>d \<le> 5\<close>, \<open>50 + d\<close> otherwise; with the size as the only criterion that is the
  whole relevance score. A product named "TV 45 inch" scores 0 for target size 45, 15 for
  target size 50 and 65 for target size 60.
\<close>

theorem size_score_by_difference:
  assumes "extract_size_from_name (p_name p) = Some product_size" and "product_size \<noteq> 0"
    and "target_size \<noteq> 0"
  shows "(c_size_inches c = Some target_size \<longrightarrow>
            size_score c p =
              (if \<bar>product_size - target_size\<bar> = 0 then 0
               else if \<bar>product_size - target_size\<bar> \<le> 5
                 then of_int (10 + \<bar>product_size - target_size\<bar>)
                 else of_int (50 + \<bar>product_size - target_size\<bar>)))
       \<and> fst (calculate_relevance_score (size_only_criteria target_size) p) =
              (if \<bar>product_size - target_size\<bar> = 0 then 0
               else if \<bar>product_size - target_size\<bar> \<le> 5
                 then of_int (10 + \<bar>product_size - target_size\<bar>)
                 else of_int (50 + \<bar>product_size - target_size\<bar>))
       \<and> (p_name q = Some ''TV 45 inch'' \<longrightarrow>
            fst (calculate_relevance_score (size_only_criteria 45) q) = 0
            \<and> fst (calculate_relevance_score (size_only_criteria 50) q) = 15
            \<and> fst (calculate_relevance_score (size_only_criteria 60) q) = 65)"
proof (intro conjI impI)
  assume target: "c_size_inches c = Some target_size"
  from size_score_value [OF assms(1,2) target assms(3)] show "size_score c p =
              (if \<bar>product_size - target_size\<bar> = 0 then 0
               else if \<bar>product_size - target_size\<bar> \<le> 5
                 then of_int (10 + \<bar>product_size - target_size\<bar>)
                 else of_int (50 + \<bar>product_size - target_size\<bar>))" .
next
  have "c_size_inches (size_only_criteria target_size) = Some target_size"
    by (simp add: size_only_criteria_def)
  from size_score_value [OF assms(1,2) this assms(3)]
  show "fst (calculate_relevance_score (size_only_criteria target_size) p) =
              (if \<bar>product_size - target_size\<bar> = 0 then 0
               else if \<bar>product_size - target_size\<bar> \<le> 5
                 then of_int (10 + \<bar>product_size - target_size\<bar>)
                 else of_int (50 + \<bar>product_size - target_size\<bar>))"
    by (simp add: calculate_relevance_score_def relevance_score_size_only)
next
  assume q: "p_name q = Some ''TV 45 inch''"
  have e: "extract_size_from_name (p_name q) = Some 45"
    by (simp only: q extract_size_tv45)
  have s: "\<And>t. c_size_inches (size_only_criteria t) = Some t"
    by (simp add: size_only_criteria_def)
  show "fst (calculate_relevance_score (size_only_criteria 45) q) = 0"
    using size_score_value [OF e _ s, of 45]
    by (simp add: calculate_relevance_score_def relevance_score_size_only)
  show "fst (calculate_relevance_score (size_only_criteria 50) q) = 15"
    using size_score_value [OF e _ s, of 50]
    by (simp add: calculate_relevance_score_def relevance_score_size_only)
  show "fst (calculate_relevance_score (size_only_criteria 60) q) = 65"
    using size_score_value [OF e _ s, of 60]
    by (simp add: calculate_relevance_score_def relevance_score_size_only)
qed

theorem size_score_by_difference_witness:
  "extract_size_from_name (p_name (plain_product ''x'' ''Monitor 27 pollici'' PriceAbsent)) = Some 27
   \<and> (27::int) \<noteq> 0 \<and> (30::int) \<noteq> 0
   \<and> fst (calculate_relevance_score (size_only_criteria 30)
            (plain_product ''x'' ''Monitor 27 pollici'' PriceAbsent)) = 13"
proof -
  have e: "extract_size_from_name (p_name (plain_product ''x'' ''Monitor 27 pollici'' PriceAbsent))
             = Some 27"
    unfolding plain_product_def by code_simp
  have n: "(27::int) \<noteq> 0" "(30::int) \<noteq> 0" by simp_all
  from size_score_by_difference
    [OF e n, of "size_only_criteria 30" "plain_product ''y'' ''TV 45 inch'' PriceAbsent"]
  show ?thesis using e by simp
qed

text \<open>
  Without the two conditions the statement of C1 fails. "TV 0 inch" yields the size 0,
  the target size 3 differs from it by 3, and the score stays at the base score 1000
  instead of 13; likewise "TV 5 inch" against the target size 0 keeps the score 1000
  instead of 15. Both guards of the source test truthiness (\<open>if target_size:\<close>,
  \<open>if product_size:\<close>).
\<close>

theorem size_score_zero_size_counterexample:
  "extract_size_from_name (p_name (plain_product ''z'' ''TV 0 inch'' PriceAbsent)) = Some 0
   \<and> c_size_inches (size_only_criteria 3) = Some 3
   \<and> size_score (size_only_criteria 3) (plain_product ''z'' ''TV 0 inch'' PriceAbsent) = 1000
   \<and> fst (calculate_relevance_score (size_only_criteria 3)
            (plain_product ''z'' ''TV 0 inch'' PriceAbsent)) = 1000
   \<and> (1000::rat) \<noteq> of_int (10 + \<bar>0 - 3\<bar>)
   \<and> extract_size_from_name (p_name (plain_product ''f'' ''TV 5 inch'' PriceAbsent)) = Some 5
   \<and> c_size_inches (size_only_criteria 0) = Some 0
   \<and> size_score (size_only_criteria 0) (plain_product ''f'' ''TV 5 inch'' PriceAbsent) = 1000"
  unfolding plain_product_def size_only_criteria_def by code_simp

text \<open>
  On rows whose price is not NaN and whose name is not null the sort is the stable sort
  by the key: for a non-empty criteria bag the function returns a rearrangement of the
  products whose keys (score, negated price, name) ascend, products with the same key
  keep their input order, and of two products in the output the earlier has the smaller
  score, or the same score and the higher price, or the same score and price and a name
  that is not greater.
\<close>

lemma float_neg_eq_nan: "float_neg x = NaN \<longleftrightarrow> x = NaN"
  by (cases x) simp_all

text \<open>
  The comparison of keys and the order used by the model of the sort agree: on keys
  without NaN and with string names, \<open>a < b\<close> is the strict lexicographic order of
  \<open>total_key\<close>; and on keys without NaN the comparison raises exactly when the two
  keys have the same score and price and one name of the two is null.
\<close>

lemma key_lt_plain:
  assumes "\<not> key_has_nan a" and "\<not> key_has_nan b"
    and "snd (snd a) \<noteq> None" and "snd (snd b) \<noteq> None"
  shows "key_lt a b = Returns (total_key a < total_key b)"
proof -
  obtain sa pa na where a: "a = (sa, pa, na)" by (cases a)
  obtain sb pb nb where b: "b = (sb, pb, nb)" by (cases b)
  from assms a b obtain u v s t
    where fin: "pa = Finite u" "pb = Finite v" "na = Some s" "nb = Some t"
    by (cases pa; cases pb; cases na; cases nb) (simp_all add: key_has_nan_def)
  show ?thesis
    unfolding a b fin
    by (auto simp add: key_lt_def total_key_def name_or_empty_def less_prod_def
        less_eq_prod_def)
qed

lemma key_lt_raises:
  assumes "\<not> key_has_nan a" and "\<not> key_has_nan b"
  shows "key_lt a b = Raises TypeError
           \<longleftrightarrow> fst a = fst b \<and> fst (snd a) = fst (snd b)
               \<and> (snd (snd a) = None) \<noteq> (snd (snd b) = None)"
proof -
  obtain sa pa na where a: "a = (sa, pa, na)" by (cases a)
  obtain sb pb nb where b: "b = (sb, pb, nb)" by (cases b)
  from assms a b obtain u v where fin: "pa = Finite u" "pb = Finite v"
    by (cases pa; cases pb) (simp_all add: key_has_nan_def)
  show ?thesis
    unfolding a b fin
    by (cases na; cases nb) (auto simp add: key_lt_def)
qed

lemma py_sorted_plain_keys:
  assumes "\<forall>x \<in> set xs. \<not> key_has_nan (key x) \<and> snd (snd (key x)) \<noteq> None"
  shows "py_sorted key xs = Returns (sort_key (\<lambda>x. total_key (key x)) xs)"
proof -
  have nan: "\<not> list_ex key_has_nan (map key xs)"
    using assms by (simp add: list_ex_iff)
  have tie: "\<not> mixed_name_tie (map key xs)"
    using assms by (simp add: mixed_name_tie_def list_ex_iff)
  from nan tie show ?thesis by (simp add: py_sorted_def Let_def)
qed

lemma rank_products_by_criteria_plain_rows:
  assumes "\<not> criteria_is_empty c"
    and "\<forall>p \<in> set products. get_price p \<noteq> NaN \<and> p_name p \<noteq> None"
  shows "\<exists>ranked.
           rank_products_by_criteria products (Some c) = Returns ranked
           \<and> mset ranked = mset products
           \<and> sorted (map (\<lambda>p. total_key (calculate_relevance_score c p)) ranked)
           \<and> (\<forall>k. filter (\<lambda>p. total_key (calculate_relevance_score c p) = k) ranked
                   = filter (\<lambda>p. total_key (calculate_relevance_score c p) = k) products)
           \<and> (\<forall>i j. i < j \<and> j < length ranked \<longrightarrow>
                 (let a = ranked ! i; b = ranked ! j
                  in relevance_score c a < relevance_score c b
                     \<or> (relevance_score c a = relevance_score c b
                         \<and> (float_lt (get_price b) (get_price a)
                             \<or> (get_price a = get_price b
                                 \<and> name_or_empty (p_name a) \<le> name_or_empty (p_name b))))))"
proof -
  let ?f = "\<lambda>p. total_key (calculate_relevance_score c p)"
  let ?res = "sort_key ?f products"
  have plain: "\<forall>p \<in> set products. \<not> key_has_nan (calculate_relevance_score c p)
                 \<and> snd (snd (calculate_relevance_score c p)) \<noteq> None"
    using assms(2) by (simp add: key_has_nan_def calculate_relevance_score_def float_neg_eq_nan)
  have res: "rank_products_by_criteria products (Some c) = Returns ?res"
  proof (cases "products = []")
    case True
    then show ?thesis by (simp add: rank_products_by_criteria_def)
  next
    case False
    with assms(1) py_sorted_plain_keys [OF plain] show ?thesis
      by (simp add: rank_products_by_criteria_def)
  qed
  have perm: "mset ?res = mset products" by simp
  have sorted_keys: "sorted (map ?f ?res)" by simp
  have stable: "\<forall>k. filter (\<lambda>p. ?f p = k) ?res = filter (\<lambda>p. ?f p = k) products"
    by (simp add: sort_key_stable)
  have order: "\<forall>i j. i < j \<and> j < length ?res \<longrightarrow>
             (let a = ?res ! i; b = ?res ! j
              in relevance_score c a < relevance_score c b
                 \<or> (relevance_score c a = relevance_score c b
                     \<and> (float_lt (get_price b) (get_price a)
                         \<or> (get_price a = get_price b
                             \<and> name_or_empty (p_name a) \<le> name_or_empty (p_name b)))))"
  proof (intro allI impI)
    fix i j
    assume ij: "i < j \<and> j < length ?res"
    then have "map ?f ?res ! i \<le> map ?f ?res ! j"
      using sorted_keys by (simp add: sorted_iff_nth_mono)
    then have le: "?f (?res ! i) \<le> ?f (?res ! j)"
      using ij by simp
    from ij have "?res ! i \<in> set products" "?res ! j \<in> set products"
      by (metis nth_mem set_sort length_sort order.strict_trans)+
    with assms(2) obtain u v where uv: "get_price (?res ! i) = Finite u" "get_price (?res ! j) = Finite v"
      by (metis pyfloat.exhaust)
    show "let a = ?res ! i; b = ?res ! j
          in relevance_score c a < relevance_score c b
             \<or> (relevance_score c a = relevance_score c b
                 \<and> (float_lt (get_price b) (get_price a)
                     \<or> (get_price a = get_price b
                         \<and> name_or_empty (p_name a) \<le> name_or_empty (p_name b))))"
      using le uv unfolding Let_def calculate_relevance_score_def total_key_def less_eq_prod_def
      by auto
  qed
  from res perm sorted_keys stable order show ?thesis by blast
qed

lemma rank_products_by_criteria_plain_rows_example:
  "rank_products_by_criteria sample_ranking_input (Some (size_only_criteria 50))
     = Returns sample_ranking_output"
  unfolding sample_ranking_input_def sample_ranking_output_def plain_product_def
    size_only_criteria_def
  by code_simp

text \<open>
  C2 at rows the statement does not hold for. Three products of score 1000 with the
  prices 100, NaN and 200 come back in the order they went in, so the product of price
  200 follows the product of price 100: every comparison of the leading-run scan
  involves the NaN and is false. Two products of equal score and price, one with a null
  name, make the sort raise \<open>TypeError\<close>.
\<close>

theorem rank_products_by_criteria_nan_price_and_null_name:
  "\<not> criteria_is_empty (size_only_criteria 50)
   \<and> rank_products_by_criteria sample_nan_price_products (Some (size_only_criteria 50))
       = Returns sample_nan_price_products
   \<and> map (relevance_score (size_only_criteria 50)) sample_nan_price_products
       = [1000, 1000, 1000]
   \<and> map get_price sample_nan_price_products = [Finite 100, NaN, Finite 200]
   \<and> rank_products_by_criteria sample_null_name_products (Some (size_only_criteria 50))
       = Raises TypeError
   \<and> map (calculate_relevance_score (size_only_criteria 50)) sample_null_name_products
       = [(1000, Finite (- 100), None), (1000, Finite (- 100), Some ''Y'')]"
  unfolding sample_nan_price_products_def sample_null_name_products_def plain_product_def
    size_only_criteria_def
  by code_simp

text \<open>
  C3. Without a criteria bag, or with an empty one, \<open>rank_products_by_criteria\<close>
  returns its input list as it is.
\<close>

theorem rank_products_by_criteria_no_criteria:
  "rank_products_by_criteria products None = Returns products
   \<and> (criteria_is_empty c \<longrightarrow>
         rank_products_by_criteria products (Some c) = Returns products)"
  by (simp add: rank_products_by_criteria_def)

theorem rank_products_by_criteria_no_criteria_witness:
  "criteria_is_empty empty_criteria
   \<and> rank_products_by_criteria sample_ranking_input None = Returns sample_ranking_input
   \<and> rank_products_by_criteria sample_ranking_input (Some empty_criteria)
       = Returns sample_ranking_input
   \<and> rank_products_by_criteria sample_ranking_input (Some (size_only_criteria 50))
       \<noteq> Returns sample_ranking_input"
proof -
  have e: "criteria_is_empty empty_criteria"
    by (simp add: criteria_is_empty_def empty_criteria_def)
  have other: "rank_products_by_criteria sample_ranking_input (Some (size_only_criteria 50))
                 \<noteq> Returns sample_ranking_input"
    unfolding sample_ranking_input_def plain_product_def size_only_criteria_def
    by code_simp
  from rank_products_by_criteria_no_criteria [of sample_ranking_input empty_criteria]
  show ?thesis using e other by simp
qed

section \<open>Properties of the cross-sell recommender\<close>

lemma set_dedupe_loop: "set (dedupe_loop items seen) \<subseteq> set items"
  by (induction items arbitrary: seen) auto

lemma set_py_take: "set (py_take n xs) \<subseteq> set xs"
  by (auto simp add: py_take_def dest: in_set_takeD)

lemma length_py_take: "0 \<le> n \<Longrightarrow> length (py_take n xs) \<le> nat n"
  by (simp add: py_take_def)

lemma push_suggestion_within:
  "set (fst st) \<subseteq> S \<Longrightarrow> item \<in> S \<Longrightarrow> set (fst (push_suggestion item st)) \<subseteq> S"
  by (cases st) (auto simp add: push_suggestion_def)

lemma push_all_within:
  "set (fst st) \<subseteq> S \<Longrightarrow> set items \<subseteq> S \<Longrightarrow> set (fst (push_all items st)) \<subseteq> S"
  unfolding push_all_def
proof (induction items arbitrary: st)
  case Nil
  then show ?case by simp
next
  case (Cons item items)
  have "set (fst (push_suggestion item st)) \<subseteq> S"
    using Cons.prems by (intro push_suggestion_within) auto
  with Cons show ?case by simp
qed

lemma push_top_within:
  "set (fst st) \<subseteq> S \<Longrightarrow> set candidates \<subseteq> S
     \<Longrightarrow> set (fst (push_top n wanted candidates st)) \<subseteq> S"
proof -
  assume st: "set (fst st) \<subseteq> S" and cand: "set candidates \<subseteq> S"
  have "set (take n (sort_by_priority (filter wanted candidates)))
          \<subseteq> set (sort_by_priority (filter wanted candidates))"
    by (rule set_take_subset)
  also have "\<dots> \<subseteq> set candidates"
    by (simp add: sort_by_priority_def)
  finally have "set (take n (sort_by_priority (filter wanted candidates))) \<subseteq> S"
    using cand by simp
  with st show ?thesis
    unfolding push_top_def by (rule push_all_within)
qed

lemma cleaning_pass_within:
  "set (fst st) \<subseteq> S \<Longrightarrow> set eligible \<subseteq> S
     \<Longrightarrow> set (fst (cleaning_pass categories has_screen_device eligible st)) \<subseteq> S"
  by (simp add: cleaning_pass_def push_top_within)

lemma pc_pass_within:
  assumes "set (fst st) \<subseteq> S" and "set eligible \<subseteq> S"
  shows "set (fst (pc_pass categories cart_items eligible st)) \<subseteq> S"
proof -
  have cand: "set (filter (\<lambda>item. ''pc'' \<in> set (cs_compatibleWith item)) eligible) \<subseteq> S"
    using assms(2) by auto
  show ?thesis
    using assms(1) cand by (simp add: pc_pass_def Let_def push_top_within)
qed

lemma tv_pass_within:
  assumes "set (fst st) \<subseteq> S" and "set eligible \<subseteq> S"
  shows "set (fst (tv_pass categories cart_items eligible st)) \<subseteq> S"
proof -
  have cand: "set (filter (\<lambda>item. ''tv'' \<in> set (cs_compatibleWith item)) eligible) \<subseteq> S"
    using assms(2) by auto
  show ?thesis
    using assms(1) cand by (simp add: tv_pass_def Let_def push_top_within)
qed

lemma scored_pass_within:
  "set (fst st) \<subseteq> S \<Longrightarrow> set eligible \<subseteq> S
     \<Longrightarrow> set (fst (scored_pass categories has_screen_device eligible st)) \<subseteq> S"
  unfolding scored_pass_def Let_def
  by (rule push_all_within) auto

lemma suggestions_are_eligible:
  "set (get_cross_sell_suggestions cart_items catalog max_results)
     \<subseteq> set (eligible_items cart_items catalog)"
proof (cases "cart_items = [] \<or> catalog = []")
  case True
  then show ?thesis by (auto simp add: get_cross_sell_suggestions_def)
next
  case False
  obtain categories has_screen_device
    where intent: "get_cart_category_intent cart_items = (categories, has_screen_device)"
    by (cases "get_cart_category_intent cart_items")
  let ?E = "eligible_items cart_items catalog"
  let ?st = "scored_pass categories has_screen_device ?E
               (tv_pass categories cart_items ?E
                  (pc_pass categories cart_items ?E
                     (cleaning_pass categories has_screen_device ?E ([], []))))"
  have within: "set (fst ?st) \<subseteq> set ?E"
    by (intro scored_pass_within tv_pass_within pc_pass_within cleaning_pass_within) simp_all
  have "get_cross_sell_suggestions cart_items catalog max_results = py_take max_results (fst ?st)"
    using False by (simp add: get_cross_sell_suggestions_def intent Let_def)
  then have "set (get_cross_sell_suggestions cart_items catalog max_results) \<subseteq> set (fst ?st)"
    by (simp only: set_py_take)
  with within show ?thesis by blast
qed

lemma eligible_not_in_cart:
  assumes "item \<in> set (eligible_items cart_items catalog)" and "ci \<in> set cart_items"
  shows "(ci_id ci \<noteq> [] \<longrightarrow>
            normalize_text (cs_sku item) \<noteq> normalize_text (ci_id ci)
            \<and> normalize_text (cs_id item) \<noteq> normalize_text (ci_id ci))
       \<and> (ci_name ci \<noteq> [] \<longrightarrow> normalize_text (cs_name item) \<noteq> normalize_text (ci_name ci))"
proof -
  obtain cart_ids cart_names
    where idents: "get_cart_identifiers cart_items = (cart_ids, cart_names)"
    by (cases "get_cart_identifiers cart_items")
  let ?kept = "filter (\<lambda>item. normalize_text (cs_sku item) \<notin> set cart_ids
                               \<and> normalize_text (cs_id item) \<notin> set cart_ids
                               \<and> normalize_text (cs_name item) \<notin> set cart_names) catalog"
  have "eligible_items cart_items catalog = dedupe_loop ?kept []"
    by (simp add: eligible_items_def idents dedupe_by_sku_def)
  with assms(1) have "item \<in> set ?kept"
    using set_dedupe_loop [of ?kept "[]"] by auto
  then have free:
    "normalize_text (cs_sku item) \<notin> set cart_ids"
    "normalize_text (cs_id item) \<notin> set cart_ids"
    "normalize_text (cs_name item) \<notin> set cart_names"
    by simp_all
  have ids: "ci_id ci \<noteq> [] \<Longrightarrow> normalize_text (ci_id ci) \<in> set cart_ids"
    and names: "ci_name ci \<noteq> [] \<Longrightarrow> normalize_text (ci_name ci) \<in> set cart_names"
    using idents assms(2) by (auto simp add: get_cart_identifiers_def)
  from free ids names show ?thesis by metis
qed

lemma from_db_suggestions_are_eligible:
  "item \<in> set (get_cross_sell_suggestions_from_db cart_items products max_results)
     \<Longrightarrow> \<exists>catalog. item \<in> set (eligible_items cart_items catalog)"
proof (cases "cart_items = [] \<or> products = []")
  case True
  assume "item \<in> set (get_cross_sell_suggestions_from_db cart_items products max_results)"
  with True show ?thesis by (auto simp add: get_cross_sell_suggestions_from_db_def)
next
  case False
  assume item: "item \<in> set (get_cross_sell_suggestions_from_db cart_items products max_results)"
  obtain categories has_screen_device
    where intent: "detect_cart_intent_from_products (resolve_cart_products cart_items products)
                     = (categories, has_screen_device)"
    by (cases "detect_cart_intent_from_products (resolve_cart_products cart_items products)")
  let ?catalog = "filter (\<lambda>item. float_lt (Finite 0) (cs_price item) \<and> cs_name item \<noteq> [])
                    (map map_product_to_cross_sell_item
                       (filter (is_accessory_for categories) products))"
  have "item \<in> set (get_cross_sell_suggestions cart_items ?catalog max_results)"
    using item False set_py_take
    by (fastforce simp add: get_cross_sell_suggestions_from_db_def intent Let_def
        split: if_splits)
  with suggestions_are_eligible show ?thesis by blast
qed

lemma recommendations_are_eligible:
  assumes "item \<in> set (cross_sell_recommendations products cart_items max_results)"
  shows "\<exists>catalog. item \<in> set (eligible_items cart_items catalog)"
proof -
  from assms have
    "item \<in> set (get_cross_sell_suggestions_from_db cart_items products max_results)
     \<or> item \<in> set (get_cross_sell_suggestions cart_items CROSS_SELL_FALLBACK_CATALOG max_results)"
    by (auto simp add: cross_sell_recommendations_def Let_def split: if_splits)
  then show ?thesis
    using from_db_suggestions_are_eligible suggestions_are_eligible by blast
qed

text \<open>
  C5, as the code has it. A suggestion of the cross-sell recommender (the suggestion
  algorithm on any catalog, the pass over the live products, and the tool that falls
  back to the fixed catalog) never has a normalised SKU or identifier equal to the
  normalised identifier of a cart item, nor a normalised name equal to the normalised
  name of a cart item.
\<close>

theorem cross_sell_never_suggests_cart_items:
  assumes "item \<in> set (get_cross_sell_suggestions cart_items catalog max_results)
           \<or> item \<in> set (get_cross_sell_suggestions_from_db cart_items products max_results)
           \<or> item \<in> set (cross_sell_recommendations products cart_items max_results)"
    and "ci \<in> set cart_items"
  shows "(ci_id ci \<noteq> [] \<longrightarrow>
            normalize_text (cs_sku item) \<noteq> normalize_text (ci_id ci)
            \<and> normalize_text (cs_id item) \<noteq> normalize_text (ci_id ci))
       \<and> (ci_name ci \<noteq> [] \<longrightarrow> normalize_text (cs_name item) \<noteq> normalize_text (ci_name ci))"
proof -
  from assms(1) have "\<exists>catalog'. item \<in> set (eligible_items cart_items catalog')"
    using suggestions_are_eligible from_db_suggestions_are_eligible recommendations_are_eligible
    by blast
  then obtain catalog' where "item \<in> set (eligible_items cart_items catalog')" ..
  from eligible_not_in_cart [OF this assms(2)] show ?thesis .
qed

theorem cross_sell_never_suggests_cart_items_witness:
  "hd CROSS_SELL_FALLBACK_CATALOG
     \<in> set (get_cross_sell_suggestions sample_cart CROSS_SELL_FALLBACK_CATALOG 8)
   \<and> hd sample_cart \<in> set sample_cart
   \<and> ci_id (hd sample_cart) = ''CS-HDMI-01''
   \<and> normalize_text (cs_sku (hd CROSS_SELL_FALLBACK_CATALOG)) \<noteq> normalize_text (ci_id (hd sample_cart))
   \<and> normalize_text (cs_id (hd CROSS_SELL_FALLBACK_CATALOG)) \<noteq> normalize_text (ci_id (hd sample_cart))
   \<and> normalize_text (cs_name (hd CROSS_SELL_FALLBACK_CATALOG))
       \<noteq> normalize_text (ci_name (hd sample_cart))
   \<and> ''CS-HDMI-01'' \<in> set (map cs_sku CROSS_SELL_FALLBACK_CATALOG)
   \<and> ''CS-HDMI-01''
       \<notin> set (map cs_sku (get_cross_sell_suggestions sample_cart CROSS_SELL_FALLBACK_CATALOG 8))"
proof -
  have sugg: "hd CROSS_SELL_FALLBACK_CATALOG
                \<in> set (get_cross_sell_suggestions sample_cart CROSS_SELL_FALLBACK_CATALOG 8)"
    unfolding sample_cart_def by code_simp
  have ci: "hd sample_cart \<in> set sample_cart"
    by (simp add: sample_cart_def)
  have ident: "ci_id (hd sample_cart) = ''CS-HDMI-01''" "ci_name (hd sample_cart) \<noteq> []"
    by (simp_all add: sample_cart_def)
  have cat: "''CS-HDMI-01'' \<in> set (map cs_sku CROSS_SELL_FALLBACK_CATALOG)"
    by code_simp
  have gone: "''CS-HDMI-01''
       \<notin> set (map cs_sku (get_cross_sell_suggestions sample_cart CROSS_SELL_FALLBACK_CATALOG 8))"
    unfolding sample_cart_def by code_simp
  from cross_sell_never_suggests_cart_items [OF disjI1 [OF sugg] ci]
  show ?thesis using sugg ci ident cat gone by simp
qed

text \<open>
  The statement of C5 fails where it sets the SKU and the identifier of a suggestion
  against the names of the cart, and the name of a suggestion against the identifiers
  of the cart: the eligibility filter compares SKU and identifier with the cart's
  identifiers only, and the name with the cart's names only. With a cart item named
  "CS-HDMI-01" and another whose identifier is "Staffa TV slim orientabile", the fixed
  catalog still yields the cable of that SKU (and of that identifier, up to
  normalisation) and the mount of that name.
\<close>

theorem cross_sell_suggests_crossed_match_counterexample:
  "map cs_sku (get_cross_sell_suggestions sample_crossed_cart CROSS_SELL_FALLBACK_CATALOG 8)
     = [''CS-CLEAN-CLOTH-01'', ''CS-CLEAN-SPRAY-01'', ''CS-REMOTE-01'', ''CS-MOUNT-01'',
        ''CS-HDMI-01'', ''CS-UPS-01'']
   \<and> cross_sell_recommendations [] sample_crossed_cart 8
       = get_cross_sell_suggestions sample_crossed_cart CROSS_SELL_FALLBACK_CATALOG 8
   \<and> list_ex (\<lambda>item. cs_sku item = ''CS-HDMI-01''
                      \<and> list_ex (\<lambda>ci. normalize_text (cs_sku item) = normalize_text (ci_name ci))
                            sample_crossed_cart)
         (get_cross_sell_suggestions sample_crossed_cart CROSS_SELL_FALLBACK_CATALOG 8)
   \<and> list_ex (\<lambda>item. cs_sku item = ''CS-HDMI-01''
                      \<and> list_ex (\<lambda>ci. normalize_text (cs_id item) = normalize_text (ci_name ci))
                            sample_crossed_cart)
         (get_cross_sell_suggestions sample_crossed_cart CROSS_SELL_FALLBACK_CATALOG 8)
   \<and> list_ex (\<lambda>item. cs_sku item = ''CS-MOUNT-01''
                      \<and> list_ex (\<lambda>ci. normalize_text (cs_name item) = normalize_text (ci_id ci))
                            sample_crossed_cart)
         (get_cross_sell_suggestions sample_crossed_cart CROSS_SELL_FALLBACK_CATALOG 8)"
  unfolding sample_crossed_cart_def by code_simp

text \<open>
  C6. For a requested \<open>max_results\<close> that is not negative (the request accepts 1 to 8),
  the suggestion algorithm, the pass over the live products and the tool return at most
  \<open>max_results\<close> suggestions; a request for 1 yields at most one.
\<close>

theorem cross_sell_at_most_max_results:
  assumes "0 \<le> max_results"
  shows "length (get_cross_sell_suggestions cart_items catalog max_results) \<le> nat max_results
       \<and> length (get_cross_sell_suggestions_from_db cart_items products max_results)
           \<le> nat max_results
       \<and> length (cross_sell_recommendations products cart_items max_results) \<le> nat max_results
       \<and> length (cross_sell_recommendations products cart_items 1) \<le> 1"
proof -
  have core: "length (get_cross_sell_suggestions c k n) \<le> nat n" if "0 \<le> n" for c k n
    using that
    by (auto simp add: get_cross_sell_suggestions_def Let_def length_py_take split: prod.splits)
  have db: "length (get_cross_sell_suggestions_from_db c ps n) \<le> nat n" if "0 \<le> n" for c ps n
    using that
    by (auto simp add: get_cross_sell_suggestions_from_db_def Let_def length_py_take
        split: prod.splits)
  have tool: "length (cross_sell_recommendations ps c n) \<le> nat n" if "0 \<le> n" for c ps n
    using that core [of n c CROSS_SELL_FALLBACK_CATALOG] db [of n c ps]
    by (simp add: cross_sell_recommendations_def Let_def)
  from tool [of 1 products cart_items] have "length (cross_sell_recommendations products cart_items 1) \<le> 1"
    by simp
  with core [OF assms] db [OF assms] tool [OF assms] show ?thesis by blast
qed

theorem cross_sell_at_most_max_results_witness:
  "(0::int) \<le> 2
   \<and> length (get_cross_sell_suggestions sample_cart CROSS_SELL_FALLBACK_CATALOG 2) \<le> nat 2
   \<and> map cs_sku (get_cross_sell_suggestions sample_cart CROSS_SELL_FALLBACK_CATALOG 2)
       = [''CS-CLEAN-CLOTH-01'', ''CS-CLEAN-SPRAY-01'']
   \<and> length (get_cross_sell_suggestions sample_cart CROSS_SELL_FALLBACK_CATALOG 8) = 5"
proof -
  have n: "(0::int) \<le> 2" by simp
  have two: "map cs_sku (get_cross_sell_suggestions sample_cart CROSS_SELL_FALLBACK_CATALOG 2)
       = [''CS-CLEAN-CLOTH-01'', ''CS-CLEAN-SPRAY-01'']"
    unfolding sample_cart_def by code_simp
  have all: "length (get_cross_sell_suggestions sample_cart CROSS_SELL_FALLBACK_CATALOG 8) = 5"
    unfolding sample_cart_def by code_simp
  from cross_sell_at_most_max_results [OF n, of sample_cart CROSS_SELL_FALLBACK_CATALOG "[]"]
  show ?thesis using two all by simp
qed

section \<open>Properties of the solution bundle builder\<close>






















text \<open>
  With the preference "high" the list sorted for "low" is reversed as a whole, so the
  products without a positive price, last for "low", come first.
\<close>

lemma bundle_high_starts_with_unpriced:
  "map p_id (build_solution_bundle_catalog (sample_unpriced_tv # sample_bundle_products) ''high'')
     = [''t0'', ''t1'', ''s1'', ''w1'']"
  unfolding sample_unpriced_tv_def sample_bundle_products_def plain_product_def by code_simp

section \<open>Properties of the checkout amounts\<close>

text \<open>
  C8. \<open>_to_minor_amount(10.005, "eur")\<close> is 1001, the half at the third decimal rounded
  up at two decimals, and \<open>_to_minor_amount(100, "jpy")\<close> is 100, "jpy" being a
  currency without decimals.
\<close>

theorem to_minor_amount_examples:
  "to_minor_amount (10005 / 1000) ''eur'' = Inr 1001
   \<and> to_minor_amount 100 ''jpy'' = Inr 100
   \<and> currency_exponent ''eur'' = 2 \<and> currency_exponent ''jpy'' = 0"
  by code_simp

section \<open>Properties of the float operations\<close>

lemma ilog2_le:
  assumes "0 < x"
  shows "2 powi ilog2 x \<le> x"
proof -
  obtain a b where q: "quotient_of x = (a, b)" by (cases "quotient_of x")
  have b: "0 < b" by (rule quotient_of_denom_pos [OF q])
  have x: "x = of_int a / of_int b" by (rule quotient_of_div [OF q])
  have a: "0 < a"
    using assms b unfolding x by (simp add: zero_less_divide_iff)
  let ?d = "bitlen a - bitlen b"
  have la: "1 \<le> bitlen a" and lb: "1 \<le> bitlen b"
    using a b bitlen_eq_zero_iff [of a] bitlen_eq_zero_iff [of b] bitlen_nonneg [of a]
      bitlen_nonneg [of b] by linarith+
  have "(2::int) ^ nat (bitlen a - 1) \<le> a"
    using bitlen_bounds [OF a] by simp
  then have "(of_int ((2::int) ^ nat (bitlen a - 1)) :: rat) \<le> of_int a"
    by (simp only: of_int_le_iff)
  then have num: "(2::rat) ^ nat (bitlen a - 1) \<le> of_int a" by simp
  have "b \<le> (2::int) ^ nat (bitlen b)"
    using bitlen_bounds [OF b] by simp
  then have "(of_int b :: rat) \<le> of_int ((2::int) ^ nat (bitlen b))"
    by (simp only: of_int_le_iff)
  then have den: "(of_int b :: rat) \<le> 2 ^ nat (bitlen b)" by simp
  have "(2::rat) powi (?d - 1) = 2 powi (bitlen a - 1) / 2 powi bitlen b"
    using power_int_diff [of "2::rat" "bitlen a - 1" "bitlen b"] by (simp add: algebra_simps)
  also have "\<dots> = 2 ^ nat (bitlen a - 1) / 2 ^ nat (bitlen b)"
    using la lb by (simp add: power_int_nonneg_exp)
  also have "\<dots> \<le> of_int a / of_int b"
    using num den a b by (intro frac_le) simp_all
  finally have low: "(2::rat) powi (?d - 1) \<le> x" by (simp add: x)
  show ?thesis
    using low by (simp add: ilog2_def q Let_def)
qed

lemma ilog2_less:
  assumes "0 < x" and "x < 2 powi n"
  shows "ilog2 x < n"
proof (rule ccontr)
  assume "\<not> ilog2 x < n"
  then have "n \<le> ilog2 x" by simp
  then have "(2::rat) powi n \<le> 2 powi ilog2 x"
    by (intro power_int_increasing) simp_all
  with ilog2_le [OF assms(1)] assms(2) show False by simp
qed

lemma ulp_exponent_le:
  assumes "0 < x" and "x < 2 powi (n + 53)" and "- 1074 \<le> n"
  shows "ulp_exponent x \<le> n"
  using ilog2_less [OF assms(1,2)] assms(3) by (simp add: ulp_exponent_def)

lemma round_half_even_of_int: "round_half_even (of_int n) = n"
  by (simp add: round_half_even_def)

lemma round_half_even_ge:
  assumes "of_int n \<le> y"
  shows "n \<le> round_half_even y"
proof -
  from assms have "n \<le> \<lfloor>y\<rfloor>" by (simp add: le_floor_iff)
  then show ?thesis by (simp add: round_half_even_def Let_def)
qed

lemma round_half_even_upper: "of_int (round_half_even y) \<le> y + 1 / 2"
proof -
  have "of_int \<lfloor>y\<rfloor> \<le> y" by simp
  then show ?thesis
    by (simp add: round_half_even_def Let_def) linarith
qed

lemma round_magnitude_nonneg:
  assumes "0 < x"
  shows "0 \<le> round_magnitude x"
proof -
  have "of_int 0 \<le> x / 2 powi ulp_exponent x" using assms by simp
  then have "0 \<le> round_half_even (x / 2 powi ulp_exponent x)"
    by (rule round_half_even_ge)
  then show ?thesis by (simp add: round_magnitude_def)
qed

lemma round_magnitude_upper:
  "round_magnitude x \<le> x + 2 powi ulp_exponent x / 2"
proof -
  let ?p = "(2::rat) powi ulp_exponent x"
  have p: "0 < ?p" by simp
  have "of_int (round_half_even (x / ?p)) * ?p \<le> (x / ?p + 1 / 2) * ?p"
    using round_half_even_upper [of "x / ?p"] p by (intro mult_right_mono) simp_all
  also have "\<dots> = x + ?p / 2"
    using p by (simp add: field_simps)
  finally show ?thesis by (simp add: round_magnitude_def)
qed

lemma round_magnitude_lower:
  assumes "of_int k \<le> x" and "ulp_exponent x \<le> 0"
  shows "of_int k \<le> round_magnitude x"
proof -
  let ?e = "ulp_exponent x"
  let ?N = "nat (- ?e)"
  let ?p = "(2::rat) powi ?e"
  have p: "?p = 1 / 2 ^ ?N"
    using assms(2) power_int_minus_divide [of "2::rat" "- ?e"]
    by (simp add: power_int_nonneg_exp)
  have "of_int (k * 2 ^ ?N) \<le> x * 2 ^ ?N"
    using assms(1) by simp
  then have "of_int (k * 2 ^ ?N) \<le> x / ?p" by (simp add: p)
  then have "k * 2 ^ ?N \<le> round_half_even (x / ?p)" by (rule round_half_even_ge)
  then have "(of_int (k * 2 ^ ?N) :: rat) \<le> of_int (round_half_even (x / ?p))"
    by (simp only: of_int_le_iff)
  then have step: "of_int (k * 2 ^ ?N) * ?p \<le> of_int (round_half_even (x / ?p)) * ?p"
    by (intro mult_right_mono) simp_all
  have "of_int k = of_int (k * 2 ^ ?N) * ?p" by (simp add: p)
  also note step
  finally show ?thesis unfolding round_magnitude_def .
qed

lemma round_magnitude_exact:
  assumes "0 < k" and "ulp_exponent (of_int k) \<le> 0"
  shows "round_magnitude (of_int k) = of_int k"
proof -
  let ?e = "ulp_exponent (of_int k)"
  let ?N = "nat (- ?e)"
  let ?p = "(2::rat) powi ?e"
  have p: "?p = 1 / 2 ^ ?N"
    using assms(2) power_int_minus_divide [of "2::rat" "- ?e"]
    by (simp add: power_int_nonneg_exp)
  have "of_int k / ?p = of_int (k * 2 ^ ?N)" by (simp add: p)
  then have "round_half_even (of_int k / ?p) = k * 2 ^ ?N"
    by (simp only: round_half_even_of_int)
  then have "round_magnitude (of_int k) = of_int (k * 2 ^ ?N) * ?p"
    by (simp add: round_magnitude_def)
  also have "\<dots> = of_int k" by (simp add: p)
  finally show ?thesis .
qed

lemma round_to_double_pos:
  assumes "0 < x" and "round_magnitude x < 2 ^ 1024"
  shows "round_to_double x = Some (round_magnitude x)"
  using assms by (simp add: round_to_double_def Let_def)

lemma round_to_double_neg:
  assumes "x < 0" and "round_magnitude (- x) < 2 ^ 1024"
  shows "round_to_double x = Some (- round_magnitude (- x))"
  using assms by (simp add: round_to_double_def Let_def)

lemma float_of_int_exact:
  assumes "\<bar>s\<bar> < 2 ^ 53"
  shows "float_of_int s = Inr (of_int s)"
proof (cases "s = 0")
  case True
  then show ?thesis by (simp add: float_of_int_def round_to_double_def)
next
  case False
  let ?k = "\<bar>s\<bar>"
  have k: "0 < ?k" using False by simp
  have "(of_int ?k :: rat) < of_int (2 ^ 53)"
    using assms by (simp only: of_int_less_iff)
  then have small: "(of_int ?k :: rat) < 2 ^ 53" by simp
  then have "(of_int ?k :: rat) < 2 powi (0 + 53)" by simp
  then have e: "ulp_exponent (of_int ?k) \<le> 0"
    using k by (intro ulp_exponent_le) simp_all
  have exact: "round_magnitude (of_int ?k) = of_int ?k"
    by (rule round_magnitude_exact [OF k e])
  have "(2::rat) ^ 53 \<le> 2 ^ 1024" by (intro power_increasing) simp_all
  with small have big: "(of_int ?k :: rat) < 2 ^ 1024" by linarith
  have abs: "\<bar>of_int s :: rat\<bar> = of_int ?k" by simp
  have "round_to_double (of_int s) = Some (of_int s)"
    using False big unfolding round_to_double_def Let_def abs exact
    by (simp add: abs_if)
  then show ?thesis by (simp add: float_of_int_def)
qed

lemma double_tenth_split: "DOUBLE_TENTH = 1 / 10 + 1 / (5 * 2 ^ 55)"
  by (simp add: DOUBLE_TENTH_def)

lemma tenth_rounds_within:
  assumes "0 < t" and "t < 2 ^ 52"
  shows "of_int (t div 10) \<le> round_magnitude (of_int t * DOUBLE_TENTH)
       \<and> round_magnitude (of_int t * DOUBLE_TENTH) < of_int (t div 10) + 1"
proof -
  let ?p = "of_int t * DOUBLE_TENTH :: rat"
  let ?k = "t div 10"
  have "(of_int t :: rat) < of_int (2 ^ 52)"
    using assms(2) by (simp only: of_int_less_iff)
  then have t_small: "(of_int t :: rat) < 2 ^ 52" by simp
  have t_pos: "(0::rat) < of_int t" using assms(1) by simp
  have p_pos: "0 < ?p" using t_pos by (simp add: DOUBLE_TENTH_def)
  have p_split: "?p = of_int t / 10 + of_int t / (5 * 2 ^ 55)"
    by (simp add: double_tenth_split algebra_simps)
  have tail: "(of_int t :: rat) / (5 * 2 ^ 55) < 1 / 40"
    using t_small by simp
  have "t = 10 * ?k + t mod 10" by simp
  moreover have "t mod 10 \<le> 9" using pos_mod_bound [of 10 t] by simp
  moreover have "0 \<le> t mod 10" by simp
  ultimately have "10 * ?k \<le> t \<and> t \<le> 10 * ?k + 9" by linarith
  then have "(of_int (10 * ?k) :: rat) \<le> of_int t \<and> (of_int t :: rat) \<le> of_int (10 * ?k + 9)"
    by (simp only: of_int_le_iff)
  then have k_le: "10 * (of_int ?k :: rat) \<le> of_int t"
    and k_ge: "(of_int t :: rat) \<le> 10 * of_int ?k + 9"
    by simp_all
  have p_low: "of_int ?k \<le> ?p"
    using k_le t_pos unfolding p_split by simp
  have p_high: "?p < of_int ?k + 9 / 10 + 1 / 40"
    using k_ge tail unfolding p_split by simp
  have "?p < 2 ^ 49"
    using t_small unfolding DOUBLE_TENTH_def by simp
  then have "?p < 2 powi (- 4 + 53)" by simp
  then have e: "ulp_exponent ?p \<le> - 4"
    using p_pos by (intro ulp_exponent_le) simp_all
  then have e0: "ulp_exponent ?p \<le> 0" by simp
  have "(2::rat) powi ulp_exponent ?p \<le> 2 powi (- 4)"
    using e by (intro power_int_increasing) simp_all
  then have ulp: "(2::rat) powi ulp_exponent ?p \<le> 1 / 16"
    by (simp add: power_int_minus_divide)
  have low: "of_int ?k \<le> round_magnitude ?p"
    by (rule round_magnitude_lower [OF p_low e0])
  have "round_magnitude ?p \<le> ?p + 2 powi ulp_exponent ?p / 2"
    by (rule round_magnitude_upper)
  with ulp p_high have "round_magnitude ?p < of_int ?k + 1" by linarith
  with low show ?thesis by simp
qed

lemma int_of_tenth_nonneg:
  assumes "0 \<le> s" and "s < 2 ^ 52"
  shows "int_of_tenth s = Inr (s div 10)"
proof (cases "s = 0")
  case True
  then show ?thesis
    by (simp add: int_of_tenth_def float_of_int_def round_to_double_def int_of_float_def)
next
  case False
  with assms have pos: "0 < s" by simp
  have "\<bar>s\<bar> < 2 ^ 53" using assms by simp
  then have fl: "float_of_int s = Inr (of_int s)" by (rule float_of_int_exact)
  let ?w = "round_magnitude (of_int s * DOUBLE_TENTH)"
  from tenth_rounds_within [OF pos assms(2)]
  have low: "of_int (s div 10) \<le> ?w" and high: "?w < of_int (s div 10) + 1" by simp_all
  have "(of_int (s div 10) :: rat) < of_int (2 ^ 52)"
    using assms by (simp only: of_int_less_iff)
  then have "(of_int (s div 10) :: rat) + 1 \<le> 2 ^ 52 + 1" by simp
  moreover have "(2::rat) ^ 52 + 1 \<le> 2 ^ 1024" by simp
  ultimately have big: "?w < 2 ^ 1024" using high by linarith
  have "0 < of_int s * DOUBLE_TENTH" using pos by (simp add: DOUBLE_TENTH_def)
  then have rd: "round_to_double (of_int s * DOUBLE_TENTH) = Some ?w"
    using big by (rule round_to_double_pos)
  have "0 \<le> s div 10" using assms(1) by (simp add: pos_imp_zdiv_nonneg_iff)
  then have "(0::rat) \<le> of_int (s div 10)" by (simp only: of_int_0_le_iff)
  then have "0 \<le> ?w" using low by linarith
  moreover have "\<lfloor>?w\<rfloor> = s div 10" using low high by (simp add: floor_unique)
  ultimately have "int_of_float ?w = s div 10" by (simp add: int_of_float_def)
  then show ?thesis by (simp add: int_of_tenth_def fl rd)
qed

lemma int_of_tenth_neg:
  assumes "s < 0" and "- (2 ^ 52) < s"
  shows "int_of_tenth s = Inr (- ((- s) div 10))"
proof -
  let ?t = "- s"
  have pos: "0 < ?t" and small: "?t < 2 ^ 52" using assms by simp_all
  have "\<bar>s\<bar> < 2 ^ 53" using assms by simp
  then have fl: "float_of_int s = Inr (of_int s)" by (rule float_of_int_exact)
  let ?w = "round_magnitude (of_int ?t * DOUBLE_TENTH)"
  from tenth_rounds_within [OF pos small]
  have low: "of_int (?t div 10) \<le> ?w" and high: "?w < of_int (?t div 10) + 1" by simp_all
  have "(of_int (?t div 10) :: rat) < of_int (2 ^ 52)"
    using pos small by (simp only: of_int_less_iff)
  then have "(of_int (?t div 10) :: rat) + 1 \<le> 2 ^ 52 + 1" by simp
  moreover have "(2::rat) ^ 52 + 1 \<le> 2 ^ 1024" by simp
  ultimately have big: "?w < 2 ^ 1024" using high by linarith
  have neg: "of_int s * DOUBLE_TENTH < 0" using assms(1) by (simp add: DOUBLE_TENTH_def mult_less_0_iff)
  have eq: "- (of_int s * DOUBLE_TENTH) = of_int ?t * DOUBLE_TENTH" by simp
  have rd: "round_to_double (of_int s * DOUBLE_TENTH) = Some (- ?w)"
    by (rule round_to_double_neg [OF neg, unfolded eq, OF big])
  have fl_w: "\<lfloor>?w\<rfloor> = ?t div 10" using low high by (simp add: floor_unique)
  have nonneg: "0 \<le> ?t div 10" using pos by (simp add: pos_imp_zdiv_nonneg_iff)
  have "int_of_float (- ?w) = - (?t div 10)"
  proof (cases "?w = 0")
    case True
    with fl_w have "?t div 10 = 0" by simp
    with True show ?thesis by (simp add: int_of_float_def)
  next
    case False
    moreover have "(0::rat) \<le> of_int (?t div 10)"
      using nonneg by (simp only: of_int_0_le_iff)
    then have "0 \<le> ?w" using low by linarith
    ultimately have "\<not> 0 \<le> - ?w" by simp
    then show ?thesis using fl_w by (simp add: int_of_float_def)
  qed
  then show ?thesis by (simp add: int_of_tenth_def fl rd)
qed

lemma hundredth_below_fifty_exact:
  assumes "\<bar>s\<bar> < 2 ^ 52"
  shows "hundredth_below_fifty s = Inr (s < 5000)"
proof -
  have "\<bar>s\<bar> < 2 ^ 53" using assms by simp
  then have fl: "float_of_int s = Inr (of_int s)" by (rule float_of_int_exact)
  consider "s = 0" | "s < 0" | "0 < s" "s < 5000" | "5000 \<le> s" by linarith
  then show ?thesis
  proof cases
    case 1
    with fl have "float_of_int 0 = Inr 0" by simp
    with 1 show ?thesis by (simp add: hundredth_below_fifty_def round_to_double_def)
  next
    case 2
    then have neg: "(of_int s :: rat) / 100 < 0" by simp
    have "0 \<le> round_magnitude \<bar>of_int s / 100 :: rat\<bar>"
      using neg by (intro round_magnitude_nonneg) simp
    then have "- round_magnitude \<bar>of_int s / 100 :: rat\<bar> < 50" by linarith
    with 2 neg show ?thesis
      unfolding hundredth_below_fifty_def fl round_to_double_def Let_def
      by (auto simp del: of_int_less_0_iff)
  next
    case 3
    let ?x = "of_int s / 100 :: rat"
    have pos: "0 < ?x" using 3 by simp
    have "(of_int s :: rat) \<le> of_int 4999" using 3 by (simp only: of_int_le_iff)
    then have x_le: "?x \<le> 4999 / 100" by simp
    then have "?x < 2 powi (- 47 + 53)" by simp
    then have e: "ulp_exponent ?x \<le> - 47" using pos by (intro ulp_exponent_le) simp_all
    have "(2::rat) powi ulp_exponent ?x \<le> 2 powi (- 47)"
      using e by (intro power_int_increasing) simp_all
    then have ulp: "(2::rat) powi ulp_exponent ?x \<le> 1 / 2 ^ 47"
      by (simp add: power_int_minus_divide)
    have "(1::rat) / 2 ^ 47 \<le> 1 / 100" by simp
    with ulp have ulp': "(2::rat) powi ulp_exponent ?x \<le> 1 / 100" by linarith
    have "round_magnitude ?x \<le> ?x + 2 powi ulp_exponent ?x / 2"
      by (rule round_magnitude_upper)
    with ulp' x_le have w: "round_magnitude ?x < 50" by linarith
    have "(50::rat) \<le> 2 ^ 1024" by simp
    with w have "round_magnitude ?x < 2 ^ 1024" by linarith
    from round_to_double_pos [OF pos this] w 3 show ?thesis
      by (simp add: hundredth_below_fifty_def fl)
  next
    case 4
    let ?x = "of_int s / 100 :: rat"
    have "(of_int 5000 :: rat) \<le> of_int s" using 4 by (simp only: of_int_le_iff)
    then have x_ge: "of_int 50 \<le> ?x" by simp
    then have pos: "0 < ?x" by simp
    have "(of_int s :: rat) < of_int (2 ^ 52)" using assms by (simp only: of_int_less_iff)
    then have "?x < 2 ^ 53" by simp
    then have "?x < 2 powi (0 + 53)" by simp
    then have e: "ulp_exponent ?x \<le> 0" using pos by (intro ulp_exponent_le) simp_all
    from round_magnitude_lower [OF x_ge e] have w: "50 \<le> round_magnitude ?x" by simp
    have "\<not> (of_int s :: rat) < 0" using 4 by simp
    with w 4 pos show ?thesis
      unfolding hundredth_below_fifty_def fl round_to_double_def Let_def
      by (auto simp del: of_int_less_0_iff)
  qed
qed

section \<open>Properties of the checkout totals\<close>

lemma subtotal_loop_minors:
  "map (\<lambda>item. to_minor_amount (item_unit_amount_major item) currency) items = map Inr minors
     \<Longrightarrow> subtotal_loop items currency acc =
           (if \<exists>m \<in> set minors. m \<le> 0 then Inl ValueError
            else Inr (acc + sum_list (map2 (\<lambda>m item. m * item_quantity item) minors items)))"
proof (induction items arbitrary: minors acc)
  case Nil
  then show ?case by simp
next
  case (Cons item items)
  from Cons.prems obtain m ms where minors: "minors = m # ms"
    and m: "to_minor_amount (item_unit_amount_major item) currency = Inr m"
    and ms: "map (\<lambda>item. to_minor_amount (item_unit_amount_major item) currency) items = map Inr ms"
    by (cases minors) auto
  show ?case
  proof (cases "m \<le> 0")
    case True
    then show ?thesis by (auto simp add: minors m)
  next
    case False
    with Cons.IH [OF ms, of "acc + m * item_quantity item"] show ?thesis
      by (simp add: minors m add.assoc)
  qed
qed

lemma tenth_in_range:
  assumes "\<bar>s\<bar> < 2 ^ 52"
  shows "int_of_tenth s = Inr (if 0 \<le> s then s div 10 else - ((- s) div 10))"
proof (cases "0 \<le> s")
  case True
  with assms have "s < 2 ^ 52" by simp
  with True show ?thesis by (simp add: int_of_tenth_nonneg)
next
  case False
  with assms have "s < 0" "- (2 ^ 52) < s" by simp_all
  with False show ?thesis by (simp add: int_of_tenth_neg)
qed

text \<open>
  C10, as the code has it. When every unit amount converts to a minor amount (the
  decimal quantisation does not overflow its 28 digits), \<open>_compute_checkout_totals\<close>
  raises \<open>ValueError\<close> exactly when one of the minor amounts is not positive. When
  all are positive and the subtotal is below \<open>2 ^ 52\<close> minor units in magnitude, it
  returns totals with the subtotal, tax 0, a discount of a tenth of the subtotal
  truncated towards zero exactly when the promo code is "WELCOME10" in any case, a
  shipping charge of 500 exactly when the currency is "EUR" in any case and the
  subtotal is below 5000, and the grand total \<open>max 0 (subtotal - discount) + shipping\<close>.
\<close>

theorem compute_checkout_totals_in_range:
  assumes "map (\<lambda>item. to_minor_amount (item_unit_amount_major item) currency) items
             = map Inr minors"
  shows "((compute_checkout_totals items currency promo_code = Inl ValueError)
            = (\<exists>m \<in> set minors. m \<le> 0))
       \<and> ((\<forall>m \<in> set minors. 0 < m)
            \<and> \<bar>sum_list (map2 (\<lambda>m item. m * item_quantity item) minors items)\<bar> < 2 ^ 52 \<longrightarrow>
          (let subtotal = sum_list (map2 (\<lambda>m item. m * item_quantity item) minors items);
               discount = (if \<exists>code. promo_code = Some code \<and> upper code = ''WELCOME10''
                           then (if 0 \<le> subtotal then subtotal div 10
                                 else - ((- subtotal) div 10))
                           else 0);
               shipping = (if upper currency = ''EUR'' \<and> subtotal < 5000 then 500 else 0)
           in compute_checkout_totals items currency promo_code =
                Inr \<lparr>subtotal_minor = subtotal, discount_minor = discount, tax_minor = 0,
                     shipping_minor = shipping,
                     grand_total_minor = max 0 (subtotal - discount) + shipping,
                     totals_currency = upper currency\<rparr>))"
proof (intro conjI impI)
  let ?subtotal = "sum_list (map2 (\<lambda>m item. m * item_quantity item) minors items)"
  have loop: "subtotal_loop items currency 0 =
                (if \<exists>m \<in> set minors. m \<le> 0 then Inl ValueError else Inr ?subtotal)"
    using subtotal_loop_minors [OF assms, of 0] by simp
  show "(compute_checkout_totals items currency promo_code = Inl ValueError)
          = (\<exists>m \<in> set minors. m \<le> 0)"
  proof (cases "\<exists>m \<in> set minors. m \<le> 0")
    case True
    then show ?thesis by (simp add: compute_checkout_totals_def loop)
  next
    case False
    have tenth: "int_of_tenth ?subtotal \<noteq> Inl ValueError"
      by (auto simp add: int_of_tenth_def float_of_int_def split: option.splits)
    have below: "hundredth_below_fifty ?subtotal \<noteq> Inl ValueError"
      by (auto simp add: hundredth_below_fifty_def float_of_int_def split: option.splits)
    have "compute_checkout_totals items currency promo_code \<noteq> Inl ValueError"
      using tenth below False
      by (auto simp add: compute_checkout_totals_def loop Let_def split: sum.splits if_splits)
    with False show ?thesis by simp
  qed
  assume range: "(\<forall>m \<in> set minors. 0 < m) \<and> \<bar>?subtotal\<bar> < 2 ^ 52"
  then have positive: "\<not> (\<exists>m \<in> set minors. m \<le> 0)" by auto
  from range have small: "\<bar>?subtotal\<bar> < 2 ^ 52" by simp
  have promo: "promo_applies promo_code
                 = (\<exists>code. promo_code = Some code \<and> upper code = ''WELCOME10'')"
    by (cases promo_code) (auto simp add: promo_applies_def upper_def)
  let ?discount = "if \<exists>code. promo_code = Some code \<and> upper code = ''WELCOME10''
                   then (if 0 \<le> ?subtotal then ?subtotal div 10 else - ((- ?subtotal) div 10))
                   else 0"
  have discount_bounds: "0 \<le> ?subtotal \<longrightarrow> 0 \<le> ?discount \<and> ?discount \<le> ?subtotal"
    by auto
  have discount_neg: "?subtotal < 0 \<longrightarrow> ?subtotal \<le> ?discount \<and> ?discount \<le> 0"
    by auto
  have base: "0 \<le> max 0 (?subtotal - ?discount)" by simp
  show "let subtotal = ?subtotal;
            discount = (if \<exists>code. promo_code = Some code \<and> upper code = ''WELCOME10''
                        then (if 0 \<le> subtotal then subtotal div 10
                              else - ((- subtotal) div 10))
                        else 0);
            shipping = (if upper currency = ''EUR'' \<and> subtotal < 5000 then 500 else 0)
        in compute_checkout_totals items currency promo_code =
             Inr \<lparr>subtotal_minor = subtotal, discount_minor = discount, tax_minor = 0,
                  shipping_minor = shipping,
                  grand_total_minor = max 0 (subtotal - discount) + shipping,
                  totals_currency = upper currency\<rparr>"
    unfolding Let_def compute_checkout_totals_def loop promo
    using positive
    by (auto simp add: tenth_in_range [OF small] hundredth_below_fifty_exact [OF small] max_def)
qed

theorem compute_checkout_totals_in_range_witness:
  "map (\<lambda>item. to_minor_amount (item_unit_amount_major item) ''eur'') sample_checkout_items
     = map Inr [1999, 500]
   \<and> compute_checkout_totals sample_checkout_items ''eur'' (Some ''welcome10'')
       = Inr \<lparr>subtotal_minor = 4498, discount_minor = 449, tax_minor = 0, shipping_minor = 500,
              grand_total_minor = 4549, totals_currency = ''EUR''\<rparr>
   \<and> compute_checkout_totals
         (\<lparr>item_name = ''Niente'', item_quantity = 1, item_unit_amount_major = 1 / 1000\<rparr>
            # sample_checkout_items) ''eur'' None = Inl ValueError"
proof -
  have conv: "map (\<lambda>item. to_minor_amount (item_unit_amount_major item) ''eur'')
                sample_checkout_items = map Inr [1999, 500]"
    unfolding sample_checkout_items_def by code_simp
  have currency: "upper ''eur'' = ''EUR''" and code: "upper ''welcome10'' = ''WELCOME10''"
    by code_simp+
  have subtotal: "sum_list (map2 (\<lambda>m item. m * item_quantity item) [1999, 500]
                    sample_checkout_items) = 4498"
    by (simp add: sample_checkout_items_def)
  note spec = compute_checkout_totals_in_range [OF conv, of "Some ''welcome10''", THEN conjunct2]
  have totals: "compute_checkout_totals sample_checkout_items ''eur'' (Some ''welcome10'')
       = Inr \<lparr>subtotal_minor = 4498, discount_minor = 449, tax_minor = 0, shipping_minor = 500,
              grand_total_minor = 4549, totals_currency = ''EUR''\<rparr>"
    using spec unfolding subtotal Let_def currency by (simp add: code)
  have refused: "compute_checkout_totals
         (\<lparr>item_name = ''Niente'', item_quantity = 1, item_unit_amount_major = 1 / 1000\<rparr>
            # sample_checkout_items) ''eur'' None = Inl ValueError"
    unfolding sample_checkout_items_def by code_simp
  show ?thesis by (intro conjI conv totals refused)
qed

text \<open>
  The statement of C10 fails for an amount beyond the precision of the decimal
  quantisation: one item of \<open>10 ^ 26\<close> euros does not convert to a minor amount at all,
  and the function raises \<open>InvalidOperation\<close>, neither \<open>ValueError\<close> nor totals.
\<close>

theorem compute_checkout_totals_overflow_counterexample:
  "to_minor_amount (item_unit_amount_major sample_huge_item) ''eur'' = Inl InvalidOperation
   \<and> compute_checkout_totals [sample_huge_item] ''eur'' None = Inl InvalidOperation"
  unfolding sample_huge_item_def by code_simp

text \<open>
  Beyond the range of the theorem the float product is rounded before it is truncated:
  a tenth of 9007199254740989 is 900719925474098.9, and the discount is 900719925474099.
\<close>

lemma discount_rounded_beyond_range:
  "int_of_tenth 9007199254740989 = Inr 900719925474099
   \<and> 9007199254740989 div 10 = (900719925474098 :: int)"
  by code_simp


end
